theory Spec2Isabelle
  imports Main
begin

section \<open>Python values shared by the server and the client\<close>

text \<open>
  A Python \<open>str\<close> is a sequence of Unicode code points; a code point is a natural number.
  String literals of the source are written \<open>lit ''...''\<close>.
\<close>

type_synonym str = "nat list"

definition lit :: "string \<Rightarrow> str" where
  "lit s = map of_char s"

definition LF :: nat where
  "LF = 10"

definition CR :: nat where
  "CR = 13"

text \<open>
  \<open>str.strip()\<close> without argument removes leading and trailing whitespace, where whitespace
  is what \<open>str.isspace\<close> accepts: U+0009..U+000D, U+001C..U+0020, U+0085, U+00A0, U+1680,
  U+2000..U+200A, U+2028, U+2029, U+202F, U+205F and U+3000.
\<close>

definition isspace :: "nat \<Rightarrow> bool" where
  "isspace c \<longleftrightarrow>
     (9 \<le> c \<and> c \<le> 13) \<or> (28 \<le> c \<and> c \<le> 32) \<or> c = 133 \<or> c = 160 \<or> c = 5760 \<or>
     (8192 \<le> c \<and> c \<le> 8202) \<or> c = 8232 \<or> c = 8233 \<or> c = 8239 \<or> c = 8287 \<or> c = 12288"

definition strip :: "str \<Rightarrow> str" where
  "strip s = rev (dropWhile isspace (rev (dropWhile isspace s)))"

text \<open>
  The exceptions the two programs can meet, each with its message (\<open>str(e)\<close>).
  \<open>JSONDecodeError\<close> and \<open>UnicodeEncodeError\<close> are subclasses of \<open>ValueError\<close>.
  \<open>OtherException cls msg\<close> is an instance of any other subclass of
  \<open>Exception\<close> raised by a library (the model API, the tool transport);
  \<open>OtherBaseException cls msg\<close> is a \<open>BaseException\<close> outside \<open>Exception\<close>
  (\<open>SystemExit\<close>, \<open>CancelledError\<close>).
\<close>

datatype py_exception =
    ValueError str
  | JSONDecodeError str
  | AttributeError str
  | IndexError str
  | FileNotFoundError str
  | UnicodeEncodeError str
  | RecursionError str
  | EOFError
  | KeyboardInterrupt
  | OtherException str str
  | OtherBaseException str str

text \<open>
  Text written to a file or printed is encoded as UTF-8, which has no encoding for the
  surrogates U+D800..U+DFFF: writing a string that holds one raises \<open>UnicodeEncodeError\<close>
  and writes nothing of it.
\<close>

definition encodable :: "nat \<Rightarrow> bool" where
  "encodable c \<longleftrightarrow> c < 55296 \<or> (57344 \<le> c \<and> c \<le> 1114111)"

definition encode_check :: "str \<Rightarrow> py_exception + unit" where
  "encode_check s =
     (if list_all encodable s then Inr ()
      else Inl (UnicodeEncodeError (lit ''utf-8 codec cannot encode character: surrogates not allowed'')))"

section \<open>The tool host: the sticky-note tools of main.py\<close>

text \<open>
  The only state of the server is the file \<open>notes.txt\<close>: absent (\<open>None\<close>) or present with
  its characters. The file is opened in text mode with the default \<open>newline=None\<close>: on a
  POSIX system writing stores the characters as given, and reading translates \<open>\r\n\<close> and
  a lone \<open>\r\<close> to \<open>\n\<close> (universal newlines). Failures of the operating system (permissions,
  a full disk) and files that do not decode are outside the model.
\<close>

type_synonym notes_file = "str option"

fun universal_newlines :: "str \<Rightarrow> str" where
  "universal_newlines [] = []"
| "universal_newlines [c] = [if c = CR then LF else c]"
| "universal_newlines (c # d # cs) =
     (if c = CR \<and> d = LF then LF # universal_newlines cs
      else if c = CR then LF # universal_newlines (d # cs)
      else c # universal_newlines (d # cs))"

text \<open>\<open>open(NOTES_FILE, "r")\<close> followed by \<open>f.read()\<close>.\<close>

definition file_read :: "notes_file \<Rightarrow> py_exception + str" where
  "file_read f =
     (case f of
        None \<Rightarrow> Inl (FileNotFoundError (lit ''notes.txt''))
      | Some raw \<Rightarrow> Inr (universal_newlines raw))"

text \<open>
  \<open>text_lines\<close> cuts a text after each \<open>\n\<close> and keeps the terminator, as iterating over a
  text file does; \<open>f.readlines()\<close> is that on the text read.
\<close>

fun text_lines :: "str \<Rightarrow> str list" where
  "text_lines [] = []"
| "text_lines (c # cs) =
     (if c = LF then [LF] # text_lines cs
      else (case text_lines cs of
              [] \<Rightarrow> [[c]]
            | l # ls \<Rightarrow> (c # l) # ls))"

definition file_readlines :: "notes_file \<Rightarrow> py_exception + str list" where
  "file_readlines f =
     (case file_read f of
        Inl e \<Rightarrow> Inl e
      | Inr text \<Rightarrow> Inr (text_lines text))"

text \<open>
  \<open>open(NOTES_FILE, "w")\<close> truncates or creates; \<open>open(NOTES_FILE, "a")\<close> appends or creates.
  \<open>file_append\<close> is \<open>open(NOTES_FILE, "a")\<close> followed by \<open>f.write(text)\<close>: the file is there
  afterwards, and the text is in it unless it does not encode.
\<close>

definition file_write :: "str \<Rightarrow> notes_file \<Rightarrow> notes_file" where
  "file_write text f = Some text"

definition file_append :: "str \<Rightarrow> notes_file \<Rightarrow> (py_exception + unit) \<times> notes_file" where
  "file_append text f =
     (case encode_check text of
        Inl e \<Rightarrow> (Inl e, Some (case f of None \<Rightarrow> [] | Some raw \<Rightarrow> raw))
      | Inr u \<Rightarrow> (Inr (), Some ((case f of None \<Rightarrow> [] | Some raw \<Rightarrow> raw) @ text)))"

definition ensure_file :: "notes_file \<Rightarrow> notes_file" where
  "ensure_file f = (if f = None then file_write [] f else f)"

text \<open>Each tool returns its result and the file it leaves behind.\<close>

definition add_note :: "str \<Rightarrow> notes_file \<Rightarrow> (py_exception + str) \<times> notes_file" where
  "add_note message f =
     (let f1 = ensure_file f
      in (case file_append (message @ [LF]) f1 of
            (Inl e, f2) \<Rightarrow> (Inl e, f2)
          | (Inr u, f2) \<Rightarrow> (Inr (lit ''Note saved!''), f2)))"

definition read_notes :: "notes_file \<Rightarrow> (py_exception + str) \<times> notes_file" where
  "read_notes f =
     (let f1 = ensure_file f
      in (case file_read f1 of
            Inl e \<Rightarrow> (Inl e, f1)
          | Inr text \<Rightarrow>
              (let content = strip text
               in (Inr (if content \<noteq> [] then content else lit ''No notes yet.''), f1))))"

definition get_latest_note :: "notes_file \<Rightarrow> (py_exception + str) \<times> notes_file" where
  "get_latest_note f =
     (let f1 = ensure_file f
      in (case file_readlines f1 of
            Inl e \<Rightarrow> (Inl e, f1)
          | Inr lines \<Rightarrow>
              (Inr (if lines \<noteq> [] then strip (last lines) else lit ''No notes yet.''), f1)))"

text \<open>The text a reader of the file sees; an absent file is created empty before it is read.\<close>

definition file_text :: "notes_file \<Rightarrow> str" where
  "file_text f = (case f of None \<Rightarrow> [] | Some raw \<Rightarrow> universal_newlines raw)"

text \<open>What is stored in the file, as written.\<close>

definition file_raw :: "notes_file \<Rightarrow> str" where
  "file_raw f = (case f of None \<Rightarrow> [] | Some raw \<Rightarrow> raw)"

text \<open>The file is absent, empty, or holds whitespace only.\<close>

definition blank_file :: "notes_file \<Rightarrow> bool" where
  "blank_file f = (case f of None \<Rightarrow> True | Some raw \<Rightarrow> list_all isspace raw)"

text \<open>
  The file is absent, empty, or ends with a newline: what \<open>ensure_file\<close> and \<open>add_note\<close>
  leave behind, and what a file edited by hand need not be.
\<close>

definition newline_terminated :: "notes_file \<Rightarrow> bool" where
  "newline_terminated f = (case f of None \<Rightarrow> True | Some raw \<Rightarrow> raw = [] \<or> last raw = LF)"

section \<open>The orchestrating client: client-stdio.py\<close>

subsection \<open>Data exchanged with the model API and the tool host\<close>

text \<open>
  The objects of a chat completion: \<open>response.choices[i].message\<close> with its optional text
  and its optional tool calls, each tool call with \<open>id\<close>, \<open>type\<close> and
  \<open>function.name\<close>, \<open>function.arguments\<close> (the raw encoded string).
\<close>

record function_call =
  fn_name :: str
  fn_arguments :: str

record tool_call =
  tc_id :: str
  tc_type :: str
  tc_function :: function_call

record chat_message =
  msg_content :: "str option"
  msg_tool_calls :: "tool_call list option"

text \<open>The dictionaries the client builds for the \<open>messages\<close> argument.\<close>

record function_dict =
  fd_name :: str
  fd_arguments :: str

record tool_call_dict =
  tcd_id :: str
  tcd_type :: str
  tcd_function :: function_dict

datatype message =
    UserMessage (content: str)
  | AssistantMessage (content: str) (tool_calls: "tool_call_dict list option")
  | ToolMessage (tool_call_id: str) (content: str)

fun role :: "message \<Rightarrow> str" where
  "role (UserMessage c) = lit ''user''"
| "role (AssistantMessage c tcs) = lit ''assistant''"
| "role (ToolMessage i c) = lit ''tool''"

text \<open>
  A tool as the tool host lists it, and as the model API takes it. \<open>'j\<close> is the type of
  decoded JSON values (schemas, decoded arguments).
\<close>

record 'j tool =
  tool_name :: str
  tool_description :: "str option"
  tool_inputSchema :: 'j

record 'j function_spec =
  fs_name :: str
  fs_description :: "str option"
  fs_parameters :: 'j

record 'j openai_tool =
  ot_type :: str
  ot_function :: "'j function_spec"

record 'j chat_request =
  req_model :: str
  req_messages :: "message list"
  req_tools :: "'j openai_tool list"
  req_tool_choice :: str

text \<open>
  \<open>result.content\<close> of a tool invocation, as far as the client looks at it: \<open>None\<close>, a list
  of content blocks, or any other object with its truth value and its \<open>str()\<close>. A content
  block has a \<open>text\<close> attribute or not (an image has none), and a \<open>repr()\<close>.
\<close>

datatype content_block = ContentBlock (block_text: "str option") (block_repr: str)

datatype content_value =
    NoneValue
  | ListValue "content_block list"
  | ObjectValue bool str

text \<open>
  The result of \<open>session.call_tool\<close>: its content, and the flag \<open>isError\<close> that the tool host
  sets when the tool failed or is not registered. The client never reads the flag.
\<close>

record call_tool_result =
  tr_content :: content_value
  tr_isError :: bool

subsection \<open>Effects: the outer world, the trace of a run, exceptions\<close>

text \<open>
  What the client prints. Each constructor is one \<open>print\<close> statement, or a run of them that
  always goes together: the four lines of hints after a failed model call, the four lines
  of the banner, the two lines on a configuration error.
\<close>

datatype printed =
    ConnectedWithTools
  | ToolLine str "str option"
  | ErrorCallingAzureOpenAI py_exception
  | DeploymentNameUsed str
  | ConfigurationHints
  | Banner
  | Goodbye
  | PleaseEnter
  | Processing str
  | AssistantReply "str option"
  | ErrorProcessingQuery py_exception
  | ConfigurationError py_exception
  | ErrorLine py_exception

text \<open>What a run does to the outer world, in order, each call with what came back.\<close>

datatype 'j event =
    Print printed
  | Input "py_exception + str"
  | StartSession str "py_exception + unit"
  | ListTools "py_exception + 'j tool list"
  | ChatCompletion "'j chat_request" "py_exception + chat_message list"
  | CallTool str 'j "py_exception + call_tool_result"
  | Close "py_exception + unit"

text \<open>
  The outer world has a state \<open>'w\<close> that the client cannot see; each call to it may change
  the state, and returns a value or raises. \<open>json_loads\<close> is \<open>json.loads\<close>, which returns
  the decoded value or raises (a \<open>JSONDecodeError\<close> on text that is not JSON, a
  \<open>RecursionError\<close> on text nested too deeply); \<open>chat_completions_create\<close> returns
  \<open>response.choices\<close> as the list of their messages.
\<close>

record ('w, 'j) env =
  environ :: "str \<Rightarrow> str option"
  json_loads :: "str \<Rightarrow> py_exception + 'j"
  chat_completions_create :: "'j chat_request \<Rightarrow> 'w \<Rightarrow> (py_exception + chat_message list) \<times> 'w"
  start_session :: "str \<Rightarrow> 'w \<Rightarrow> (py_exception + unit) \<times> 'w"
  session_list_tools :: "'w \<Rightarrow> (py_exception + 'j tool list) \<times> 'w"
  session_call_tool :: "str \<Rightarrow> 'j \<Rightarrow> 'w \<Rightarrow> (py_exception + call_tool_result) \<times> 'w"
  read_input :: "'w \<Rightarrow> (py_exception + str) \<times> 'w"
  aclose :: "'w \<Rightarrow> (py_exception + unit) \<times> 'w"

text \<open>
  A computation of the client: from a state of the world to a value or an exception, the
  events it caused, and the state it leaves.
\<close>

type_synonym ('a, 'w, 'j) io = "'w \<Rightarrow> (py_exception + 'a) \<times> 'j event list \<times> 'w"

definition io_return :: "'a \<Rightarrow> ('a, 'w, 'j) io" where
  "io_return x w = (Inr x, [], w)"

definition io_raise :: "py_exception \<Rightarrow> ('a, 'w, 'j) io" where
  "io_raise e w = (Inl e, [], w)"

definition io_lift :: "py_exception + 'a \<Rightarrow> ('a, 'w, 'j) io" where
  "io_lift r w = (r, [], w)"

definition io_bind :: "('a, 'w, 'j) io \<Rightarrow> ('a \<Rightarrow> ('b, 'w, 'j) io) \<Rightarrow> ('b, 'w, 'j) io" where
  "io_bind m f w =
     (case m w of
        (Inl e, t, w1) \<Rightarrow> (Inl e, t, w1)
      | (Inr x, t, w1) \<Rightarrow> (case f x w1 of (r, t2, w2) \<Rightarrow> (r, t @ t2, w2)))"

text \<open>\<open>try: m except ...: handler\<close>; the handler answers \<open>None\<close> for an exception no clause matches.\<close>

definition io_try ::
  "('a, 'w, 'j) io \<Rightarrow> (py_exception \<Rightarrow> ('a, 'w, 'j) io option) \<Rightarrow> ('a, 'w, 'j) io" where
  "io_try m handler w =
     (case m w of
        (Inr x, t, w1) \<Rightarrow> (Inr x, t, w1)
      | (Inl e, t, w1) \<Rightarrow>
          (case handler e of
             None \<Rightarrow> (Inl e, t, w1)
           | Some h \<Rightarrow> (case h w1 of (r, t2, w2) \<Rightarrow> (r, t @ t2, w2))))"

text \<open>\<open>str(e)\<close>.\<close>

fun exception_str :: "py_exception \<Rightarrow> str" where
  "exception_str (ValueError msg) = msg"
| "exception_str (JSONDecodeError msg) = msg"
| "exception_str (AttributeError msg) = msg"
| "exception_str (IndexError msg) = msg"
| "exception_str (FileNotFoundError msg) = msg"
| "exception_str (UnicodeEncodeError msg) = msg"
| "exception_str (RecursionError msg) = msg"
| "exception_str EOFError = []"
| "exception_str KeyboardInterrupt = []"
| "exception_str (OtherException cls msg) = msg"
| "exception_str (OtherBaseException cls msg) = msg"

text \<open>The text that a \<open>print\<close> statement puts into its line, besides its fixed words.\<close>

fun printed_text :: "printed \<Rightarrow> str" where
  "printed_text ConnectedWithTools = []"
| "printed_text (ToolLine n d) = n @ (case d of None \<Rightarrow> lit ''None'' | Some s \<Rightarrow> s)"
| "printed_text (ErrorCallingAzureOpenAI e) = exception_str e"
| "printed_text (DeploymentNameUsed s) = s"
| "printed_text ConfigurationHints = []"
| "printed_text Banner = []"
| "printed_text Goodbye = []"
| "printed_text PleaseEnter = []"
| "printed_text (Processing s) = s"
| "printed_text (AssistantReply r) = (case r of None \<Rightarrow> lit ''None'' | Some s \<Rightarrow> s)"
| "printed_text (ErrorProcessingQuery e) = exception_str e"
| "printed_text (ConfigurationError e) = exception_str e"
| "printed_text (ErrorLine e) = exception_str e"

text \<open>\<open>print\<close>: the line appears, or nothing appears and \<open>UnicodeEncodeError\<close> is raised.\<close>

definition print_line :: "printed \<Rightarrow> (unit, 'w, 'j) io" where
  "print_line out w =
     (case encode_check (printed_text out) of
        Inl e \<Rightarrow> (Inl e, [], w)
      | Inr u \<Rightarrow> (Inr (), [Print out], w))"

fun print_lines :: "printed list \<Rightarrow> (unit, 'w, 'j) io" where
  "print_lines [] = io_return ()"
| "print_lines (out # outs) = io_bind (print_line out) (\<lambda>_. print_lines outs)"

text \<open>A call to the outer world, recorded with its outcome.\<close>

definition external ::
  "((py_exception + 'a) \<Rightarrow> 'j event) \<Rightarrow> ('w \<Rightarrow> (py_exception + 'a) \<times> 'w) \<Rightarrow> ('a, 'w, 'j) io" where
  "external ev call w = (case call w of (r, w1) \<Rightarrow> (r, [ev r], w1))"

definition isinstance_Exception :: "py_exception \<Rightarrow> bool" where
  "isinstance_Exception e =
     (case e of
        KeyboardInterrupt \<Rightarrow> False
      | OtherBaseException cls msg \<Rightarrow> False
      | _ \<Rightarrow> True)"

definition isinstance_ValueError :: "py_exception \<Rightarrow> bool" where
  "isinstance_ValueError e =
     (case e of
        ValueError msg \<Rightarrow> True
      | JSONDecodeError msg \<Rightarrow> True
      | UnicodeEncodeError msg \<Rightarrow> True
      | _ \<Rightarrow> False)"

text \<open>The name of the exception's class.\<close>

fun class_name :: "py_exception \<Rightarrow> str" where
  "class_name (ValueError msg) = lit ''ValueError''"
| "class_name (JSONDecodeError msg) = lit ''JSONDecodeError''"
| "class_name (AttributeError msg) = lit ''AttributeError''"
| "class_name (IndexError msg) = lit ''IndexError''"
| "class_name (FileNotFoundError msg) = lit ''FileNotFoundError''"
| "class_name (UnicodeEncodeError msg) = lit ''UnicodeEncodeError''"
| "class_name (RecursionError msg) = lit ''RecursionError''"
| "class_name EOFError = lit ''EOFError''"
| "class_name KeyboardInterrupt = lit ''KeyboardInterrupt''"
| "class_name (OtherException cls msg) = cls"
| "class_name (OtherBaseException cls msg) = cls"

subsection \<open>MCPAzureOpenAIClient\<close>

text \<open>
  The fields of the client object that the code reads later. \<open>session\<close> tells whether
  \<open>self.session\<close> has been set (it is \<open>None\<close> until \<open>connect_to_server\<close>).
\<close>

record client =
  deployment_name :: str
  api_key :: str
  azure_endpoint :: str
  api_version :: str
  session :: bool

text \<open>The truth value of an optional string or list: \<open>None\<close> and the empty one are false.\<close>

definition truthy :: "'a list option \<Rightarrow> bool" where
  "truthy v = (case v of None \<Rightarrow> False | Some xs \<Rightarrow> xs \<noteq> [])"

text \<open>
  \<open>__init__\<close>, given the environment variables and the \<open>deployment_name\<close> argument.
  It calls nothing in the outer world.
\<close>

definition missing_configuration_message :: str where
  "missing_configuration_message =
     lit ''Missing required Azure OpenAI configuration. Please set AZURE_OPENAI_API_KEY, '' @
     lit ''AZURE_OPENAI_ENDPOINT, and AZURE_OPENAI_DEPLOYMENT_NAME in your .env file.''"

definition MCPAzureOpenAIClient_init ::
  "(str \<Rightarrow> str option) \<Rightarrow> str option \<Rightarrow> py_exception + client" where
  "MCPAzureOpenAIClient_init getenv deployment_name_arg =
     (let key = getenv (lit ''AZURE_OPENAI_API_KEY'');
          endpoint = getenv (lit ''AZURE_OPENAI_ENDPOINT'');
          version = (case getenv (lit ''AZURE_OPENAI_API_VERSION'') of
                       None \<Rightarrow> lit ''2025-01-01''
                     | Some v \<Rightarrow> v);
          deployment = (if truthy deployment_name_arg then deployment_name_arg
                        else getenv (lit ''AZURE_OPENAI_DEPLOYMENT_NAME''))
      in (case (key, endpoint, deployment) of
            (Some k, Some e, Some d) \<Rightarrow>
              (if k \<noteq> [] \<and> e \<noteq> [] \<and> d \<noteq> []
               then Inr \<lparr>deployment_name = d, api_key = k, azure_endpoint = e,
                         api_version = version, session = False\<rparr>
               else Inl (ValueError missing_configuration_message))
          | _ \<Rightarrow> Inl (ValueError missing_configuration_message)))"

definition connect_to_server ::
  "('w, 'j) env \<Rightarrow> client \<Rightarrow> str \<Rightarrow> (client, 'w, 'j) io" where
  "connect_to_server env c server_script_path =
     io_bind (external (StartSession server_script_path) (start_session env server_script_path)) (\<lambda>_.
     io_bind (external ListTools (session_list_tools env)) (\<lambda>tools.
     io_bind (print_line ConnectedWithTools) (\<lambda>_.
     io_bind (print_lines (map (\<lambda>t. ToolLine (tool_name t) (tool_description t)) tools)) (\<lambda>_.
     io_return (c\<lparr>session := True\<rparr>)))))"

definition openai_format :: "'j tool \<Rightarrow> 'j openai_tool" where
  "openai_format t =
     \<lparr>ot_type = lit ''function'',
      ot_function = \<lparr>fs_name = tool_name t, fs_description = tool_description t,
                     fs_parameters = tool_inputSchema t\<rparr>\<rparr>"

definition get_mcp_tools :: "('w, 'j) env \<Rightarrow> client \<Rightarrow> ('j openai_tool list, 'w, 'j) io" where
  "get_mcp_tools env c =
     (if \<not> session c
      then io_raise (AttributeError (lit ''NoneType object has no attribute list_tools''))
      else io_bind (external ListTools (session_list_tools env)) (\<lambda>tools.
           io_return (map openai_format tools)))"

subsection \<open>process_query\<close>

text \<open>\<open>response.choices[0].message\<close>.\<close>

definition first_message :: "chat_message list \<Rightarrow> py_exception + chat_message" where
  "first_message choices =
     (case choices of
        [] \<Rightarrow> Inl (IndexError (lit ''list index out of range''))
      | m # _ \<Rightarrow> Inr m)"

definition tool_call_dict_of :: "tool_call \<Rightarrow> tool_call_dict" where
  "tool_call_dict_of tc =
     \<lparr>tcd_id = tc_id tc,
      tcd_type = tc_type tc,
      tcd_function = \<lparr>fd_name = fn_name (tc_function tc),
                      fd_arguments = fn_arguments (tc_function tc)\<rparr>\<rparr>"

text \<open>The assistant message as it is replayed: \<open>assistant_msg\<close> of the source.\<close>

definition assistant_msg :: "chat_message \<Rightarrow> message" where
  "assistant_msg assistant_message =
     AssistantMessage
       (case msg_content assistant_message of
          None \<Rightarrow> []
        | Some text \<Rightarrow> (if text \<noteq> [] then text else []))
       (case msg_tool_calls assistant_message of
          None \<Rightarrow> None
        | Some tcs \<Rightarrow> (if tcs \<noteq> [] then Some (map tool_call_dict_of tcs) else None))"

text \<open>
  \<open>tool_content\<close> of the source: empty unless \<open>result.content\<close> is true; the first block's
  text for a list (an \<open>AttributeError\<close> when that block has no \<open>text\<close>); \<open>str()\<close> of any
  other true value.
\<close>

definition tool_content :: "content_value \<Rightarrow> py_exception + str" where
  "tool_content result_content =
     (case result_content of
        NoneValue \<Rightarrow> Inr []
      | ListValue [] \<Rightarrow> Inr []
      | ListValue (b # bs) \<Rightarrow>
          (case block_text b of
             None \<Rightarrow> Inl (AttributeError (lit ''object has no attribute text''))
           | Some text \<Rightarrow> Inr text)
      | ObjectValue true_value s \<Rightarrow> Inr (if true_value then s else []))"

text \<open>The loop over \<open>assistant_message.tool_calls\<close>, appending to \<open>messages\<close>.\<close>

fun resolve_tool_calls ::
  "('w, 'j) env \<Rightarrow> tool_call list \<Rightarrow> message list \<Rightarrow> (message list, 'w, 'j) io" where
  "resolve_tool_calls env [] messages = io_return messages"
| "resolve_tool_calls env (tc # rest) messages =
     io_bind (io_lift (json_loads env (fn_arguments (tc_function tc)))) (\<lambda>arguments.
     io_bind (external (CallTool (fn_name (tc_function tc)) arguments)
                (session_call_tool env (fn_name (tc_function tc)) arguments)) (\<lambda>result.
     io_bind (io_lift (tool_content (tr_content result))) (\<lambda>text.
     resolve_tool_calls env rest (messages @ [ToolMessage (tc_id tc) text]))))"

definition first_request :: "client \<Rightarrow> str \<Rightarrow> 'j openai_tool list \<Rightarrow> 'j chat_request" where
  "first_request c query tools =
     \<lparr>req_model = deployment_name c,
      req_messages = [UserMessage query],
      req_tools = tools,
      req_tool_choice = lit ''auto''\<rparr>"

definition final_request ::
  "client \<Rightarrow> message list \<Rightarrow> 'j openai_tool list \<Rightarrow> 'j chat_request" where
  "final_request c messages tools =
     \<lparr>req_model = deployment_name c,
      req_messages = messages,
      req_tools = tools,
      req_tool_choice = lit ''none''\<rparr>"

text \<open>The \<open>except Exception\<close> clause around the first model call: report, then re-raise.\<close>

definition report_and_reraise ::
  "client \<Rightarrow> py_exception \<Rightarrow> ('a, 'w, 'j) io option" where
  "report_and_reraise c e =
     (if isinstance_Exception e
      then Some (io_bind (print_lines [ErrorCallingAzureOpenAI e,
                                       DeploymentNameUsed (deployment_name c),
                                       ConfigurationHints]) (\<lambda>_. io_raise e))
      else None)"

definition process_query ::
  "('w, 'j) env \<Rightarrow> client \<Rightarrow> str \<Rightarrow> (str option, 'w, 'j) io" where
  "process_query env c query =
     io_bind (get_mcp_tools env c) (\<lambda>tools.
     io_bind (io_try (external (ChatCompletion (first_request c query tools))
                        (chat_completions_create env (first_request c query tools)))
                (report_and_reraise c)) (\<lambda>choices.
     io_bind (io_lift (first_message choices)) (\<lambda>assistant_message.
       (let messages = [UserMessage query, assistant_msg assistant_message]
        in (case msg_tool_calls assistant_message of
              None \<Rightarrow> io_return (msg_content assistant_message)
            | Some tcs \<Rightarrow>
                (if tcs \<noteq> []
                 then io_bind (resolve_tool_calls env tcs messages) (\<lambda>messages.
                      io_bind (external (ChatCompletion (final_request c messages tools))
                                 (chat_completions_create env (final_request c messages tools)))
                        (\<lambda>final_choices.
                      io_bind (io_lift (first_message final_choices)) (\<lambda>final_message.
                      io_return (msg_content final_message))))
                 else io_return (msg_content assistant_message)))))))"

subsection \<open>The interactive loop\<close>

text \<open>
  \<open>str.lower()\<close> on the ASCII letters. The client only compares the result with three ASCII
  words, and no character outside ASCII lower-cases to a letter of these words.
\<close>

definition lower :: "str \<Rightarrow> str" where
  "lower s = map (\<lambda>c. if 65 \<le> c \<and> c \<le> 90 then c + 32 else c) s"

datatype step = Continue | Break

text \<open>The clauses \<open>except KeyboardInterrupt\<close> and \<open>except Exception\<close> of the loop body.\<close>

definition loop_handlers :: "py_exception \<Rightarrow> (step, 'w, 'j) io option" where
  "loop_handlers e =
     (if e = KeyboardInterrupt
      then Some (io_bind (print_line Goodbye) (\<lambda>_. io_return Break))
      else if isinstance_Exception e
      then Some (io_bind (print_line (ErrorProcessingQuery e)) (\<lambda>_. io_return Continue))
      else None)"

text \<open>One turn of \<open>while True\<close>.\<close>

definition loop_body :: "('w, 'j) env \<Rightarrow> client \<Rightarrow> (step, 'w, 'j) io" where
  "loop_body env c =
     io_try
       (io_bind (external Input (read_input env)) (\<lambda>line.
          (let user_input = strip line
           in if lower user_input \<in> set [lit ''exit'', lit ''quit'', lit ''bye'']
              then io_bind (print_line Goodbye) (\<lambda>_. io_return Break)
              else if user_input = []
              then io_bind (print_line PleaseEnter) (\<lambda>_. io_return Continue)
              else io_bind (print_line (Processing user_input)) (\<lambda>_.
                   io_bind (process_query env c user_input) (\<lambda>response.
                   io_bind (print_line (AssistantReply response)) (\<lambda>_.
                   io_return Continue))))))
       loop_handlers"

text \<open>
  The loop may run for ever, so it takes fuel: \<open>None\<close> means that \<open>n\<close> turns did not end
  it. It ends with \<open>break\<close> or with an exception that no clause of the body catches.
\<close>

fun chat_loop ::
  "nat \<Rightarrow> ('w, 'j) env \<Rightarrow> client \<Rightarrow> 'w \<Rightarrow> ((py_exception + unit) \<times> 'j event list \<times> 'w) option" where
  "chat_loop 0 env c w = None"
| "chat_loop (Suc n) env c w =
     (case loop_body env c w of
        (Inl e, t, w1) \<Rightarrow> Some (Inl e, t, w1)
      | (Inr Break, t, w1) \<Rightarrow> Some (Inr (), t, w1)
      | (Inr Continue, t, w1) \<Rightarrow>
          (case chat_loop n env c w1 of
             None \<Rightarrow> None
           | Some (r, t2, w2) \<Rightarrow> Some (r, t @ t2, w2)))"

text \<open>The clauses \<open>except ValueError\<close> and \<open>except Exception\<close> of \<open>interactive_azure_openai\<close>.\<close>

definition outer_handlers :: "py_exception \<Rightarrow> (unit, 'w, 'j) io" where
  "outer_handlers e =
     (if isinstance_ValueError e then print_line (ConfigurationError e)
      else if isinstance_Exception e then print_line (ErrorLine e)
      else io_raise e)"

text \<open>\<open>finally: await client.cleanup()\<close>; an exception of the cleanup replaces the outcome.\<close>

definition finally_cleanup ::
  "('w, 'j) env \<Rightarrow> (py_exception + unit) \<times> 'j event list \<times> 'w
     \<Rightarrow> (py_exception + unit) \<times> 'j event list \<times> 'w" where
  "finally_cleanup env outcome =
     (case outcome of
        (r, t, w) \<Rightarrow>
          (case external Close (aclose env) w of
             (Inl e, t2, w2) \<Rightarrow> (Inl e, t @ t2, w2)
           | (Inr u, t2, w2) \<Rightarrow> (r, t @ t2, w2)))"

text \<open>What follows the body of the \<open>try\<close>: the matching clause if it raised, then the cleanup.\<close>

definition after_try ::
  "('w, 'j) env \<Rightarrow> (py_exception + unit) \<times> 'j event list \<times> 'w
     \<Rightarrow> (py_exception + unit) \<times> 'j event list \<times> 'w" where
  "after_try env outcome =
     (case outcome of
        (Inr u, t, w) \<Rightarrow> finally_cleanup env (Inr u, t, w)
      | (Inl e, t, w) \<Rightarrow>
          (case outer_handlers e w of
             (r, t2, w2) \<Rightarrow> finally_cleanup env (r, t @ t2, w2)))"

text \<open>
  \<open>interactive_azure_openai\<close>. The client is constructed before the \<open>try\<close>, so an exception
  of \<open>__init__\<close> leaves the function at once.
\<close>

definition interactive_azure_openai ::
  "nat \<Rightarrow> ('w, 'j) env \<Rightarrow> 'w \<Rightarrow> ((py_exception + unit) \<times> 'j event list \<times> 'w) option" where
  "interactive_azure_openai fuel env w =
     (case MCPAzureOpenAIClient_init (environ env) None of
        Inl e \<Rightarrow> Some (Inl e, [], w)
      | Inr client \<Rightarrow>
          (case io_bind (connect_to_server env client (lit ''main.py'')) (\<lambda>c.
                io_bind (print_line Banner) (\<lambda>_. io_return c)) w of
             (Inl e, t, w1) \<Rightarrow> Some (after_try env (Inl e, t, w1))
           | (Inr c, t, w1) \<Rightarrow>
               (case chat_loop fuel env c w1 of
                  None \<Rightarrow> None
                | Some (r, t2, w2) \<Rightarrow> Some (after_try env (r, t @ t2, w2)))))"

subsection \<open>Reading a trace\<close>

text \<open>The calls to the model in a trace, each with its request and what came back.\<close>

fun model_calls ::
  "'j event list \<Rightarrow> ('j chat_request \<times> (py_exception + chat_message list)) list" where
  "model_calls [] = []"
| "model_calls (ChatCompletion req resp # t) = (req, resp) # model_calls t"
| "model_calls (ev # t) = model_calls t"

text \<open>
  The tool invocations in a trace: name and decoded arguments; and the \<open>content\<close> of the
  results of those that returned.
\<close>

fun tool_invocations :: "'j event list \<Rightarrow> (str \<times> 'j) list" where
  "tool_invocations [] = []"
| "tool_invocations (CallTool name args resp # t) = (name, args) # tool_invocations t"
| "tool_invocations (ev # t) = tool_invocations t"

fun tool_results :: "'j event list \<Rightarrow> content_value list" where
  "tool_results [] = []"
| "tool_results (CallTool name args (Inr v) # t) = tr_content v # tool_results t"
| "tool_results (ev # t) = tool_results t"

subsection \<open>The coercion rule in the words of the specification\<close>

text \<open>
  \<open>str()\<close> of a value that \<open>result.content\<close> can be: \<open>None\<close>, a list (the \<open>repr()\<close> of its
  elements between brackets), or another object.
\<close>

fun join_strs :: "str \<Rightarrow> str list \<Rightarrow> str" where
  "join_strs sep [] = []"
| "join_strs sep [x] = x"
| "join_strs sep (x # y # ys) = x @ sep @ join_strs sep (y # ys)"

definition py_str :: "content_value \<Rightarrow> str" where
  "py_str v =
     (case v of
        NoneValue \<Rightarrow> lit ''None''
      | ListValue bs \<Rightarrow> lit ''['' @ join_strs (lit '', '') (map block_repr bs) @ lit '']''
      | ObjectValue true_value s \<Rightarrow> s)"

text \<open>
  The rule as the specification words it: the first element's text for a non-empty list,
  otherwise the string form of the whole value.
\<close>

definition specified_tool_content :: "content_value \<Rightarrow> py_exception + str" where
  "specified_tool_content v =
     (case v of
        ListValue (b # bs) \<Rightarrow>
          (case block_text b of
             None \<Rightarrow> Inl (AttributeError (lit ''object has no attribute text''))
           | Some s \<Rightarrow> Inr s)
      | _ \<Rightarrow> Inr (py_str v))"

subsection \<open>An outer world to run the client in\<close>

text \<open>
  A small world for the examples. Its state is the notes file of the tool host and the
  lines still to come on standard input. Its tool host serves \<open>read_notes\<close> of main.py and
  a tool \<open>noop\<close> that returns no content; for a name that is not registered it answers as
  the tool host of main.py does, with an error result that carries the text
  \<open>Unknown tool: name\<close> and raises nothing. Its JSON decoder knows the empty object and
  rejects the text \<open>{oops\<close> as \<open>json.loads\<close> does. Its model answers by the text of the
  query, and is out of reach for a query it does not know.
\<close>

type_synonym example_world = "notes_file \<times> str list"

definition example_json_loads :: "str \<Rightarrow> py_exception + str" where
  "example_json_loads s =
     (if s = lit ''{}'' then Inr s
      else Inl (JSONDecodeError
             (lit ''Expecting property name enclosed in double quotes: line 1 column 2 (char 1)'')))"

definition example_tool_call :: "str \<Rightarrow> str \<Rightarrow> str \<Rightarrow> tool_call" where
  "example_tool_call i n a =
     \<lparr>tc_id = i, tc_type = lit ''function'', tc_function = \<lparr>fn_name = n, fn_arguments = a\<rparr>\<rparr>"

text \<open>The answers of the model that ask for tools.\<close>

definition example_notes_calls :: "tool_call list" where
  "example_notes_calls =
     [example_tool_call (lit ''call_1'') (lit ''read_notes'') (lit ''{}''),
      example_tool_call (lit ''call_2'') (lit ''noop'') (lit ''{}'')]"

definition example_bad_calls :: "tool_call list" where
  "example_bad_calls =
     [example_tool_call (lit ''call_1'') (lit ''read_notes'') (lit ''{}''),
      example_tool_call (lit ''call_2'') (lit ''noop'') (lit ''{oops'')]"

definition example_unknown_calls :: "tool_call list" where
  "example_unknown_calls = [example_tool_call (lit ''call_1'') (lit ''nope'') (lit ''{}'')]"

definition asking_for :: "tool_call list \<Rightarrow> chat_message" where
  "asking_for tcs = \<lparr>msg_content = None, msg_tool_calls = Some tcs\<rparr>"

definition saying :: "str \<Rightarrow> chat_message" where
  "saying s = \<lparr>msg_content = Some s, msg_tool_calls = None\<rparr>"

definition example_api_error :: py_exception where
  "example_api_error = OtherException (lit ''APIConnectionError'') (lit ''Connection error.'')"

definition example_chat ::
  "str chat_request \<Rightarrow> example_world \<Rightarrow> (py_exception + chat_message list) \<times> example_world" where
  "example_chat req w =
     (case req_messages req of
        [UserMessage q] \<Rightarrow>
          (if q = lit ''hello'' then (Inr [saying (lit ''Hi!'')], w)
           else if q = lit ''notes'' then (Inr [asking_for example_notes_calls], w)
           else if q = lit ''bad'' then (Inr [asking_for example_bad_calls], w)
           else if q = lit ''unknown'' then (Inr [asking_for example_unknown_calls], w)
           else (Inl example_api_error, w))
      | _ \<Rightarrow> (Inr [saying (lit ''Done.'')], w))"

definition text_result :: "str \<Rightarrow> bool \<Rightarrow> call_tool_result" where
  "text_result s is_error =
     \<lparr>tr_content = ListValue [ContentBlock (Some s) (lit ''TextContent'')], tr_isError = is_error\<rparr>"

definition example_call_tool ::
  "str \<Rightarrow> str \<Rightarrow> example_world \<Rightarrow> (py_exception + call_tool_result) \<times> example_world" where
  "example_call_tool n args w =
     (case w of
        (f, pending) \<Rightarrow>
          (if n = lit ''read_notes''
           then (case read_notes f of
                   (Inl e, f1) \<Rightarrow> (Inr (text_result (exception_str e) True), (f1, pending))
                 | (Inr s, f1) \<Rightarrow> (Inr (text_result s False), (f1, pending)))
           else if n = lit ''noop''
           then (Inr \<lparr>tr_content = ListValue [], tr_isError = False\<rparr>, w)
           else (Inr (text_result (lit ''Unknown tool: '' @ n) True), w)))"

definition example_input :: "example_world \<Rightarrow> (py_exception + str) \<times> example_world" where
  "example_input w =
     (case w of
        (f, []) \<Rightarrow> (Inl EOFError, w)
      | (f, l # ls) \<Rightarrow> (Inr l, (f, ls)))"

definition example_environ :: "str \<Rightarrow> str option" where
  "example_environ var =
     (if var = lit ''AZURE_OPENAI_API_KEY'' then Some (lit ''secret'')
      else if var = lit ''AZURE_OPENAI_ENDPOINT'' then Some (lit ''https://example.openai.azure.com/'')
      else if var = lit ''AZURE_OPENAI_DEPLOYMENT_NAME'' then Some (lit ''gpt'')
      else None)"

definition example_env :: "(example_world, str) env" where
  "example_env =
     \<lparr>environ = example_environ,
      json_loads = example_json_loads,
      chat_completions_create = example_chat,
      start_session = (\<lambda>path w. (Inr (), w)),
      session_list_tools = (\<lambda>w. (Inr [], w)),
      session_call_tool = example_call_tool,
      read_input = example_input,
      aclose = (\<lambda>w. (Inr (), w))\<rparr>"

definition example_client :: client where
  "example_client =
     \<lparr>deployment_name = lit ''gpt'', api_key = lit ''secret'',
      azure_endpoint = lit ''https://example.openai.azure.com/'',
      api_version = lit ''2025-01-01'', session = True\<rparr>"

text \<open>
  The messages and the trace of the query \<open>notes\<close> in this world, on an absent notes file:
  two tool calls, the second of which returns no content.
\<close>

definition example_notes_messages :: "message list" where
  "example_notes_messages =
     [UserMessage (lit ''notes''),
      assistant_msg (asking_for example_notes_calls),
      ToolMessage (lit ''call_1'') (lit ''No notes yet.''),
      ToolMessage (lit ''call_2'') []]"

definition example_notes_trace :: "str event list" where
  "example_notes_trace =
     [ListTools (Inr []),
      ChatCompletion (first_request example_client (lit ''notes'') [])
        (Inr [asking_for example_notes_calls]),
      CallTool (lit ''read_notes'') (lit ''{}'') (Inr (text_result (lit ''No notes yet.'') False)),
      CallTool (lit ''noop'') (lit ''{}'') (Inr \<lparr>tr_content = ListValue [], tr_isError = False\<rparr>),
      ChatCompletion (final_request example_client example_notes_messages [])
        (Inr [saying (lit ''Done.'')])]"

text \<open>The trace of the query \<open>bad\<close>: the second request carries arguments that do not decode.\<close>

definition example_bad_trace :: "str event list" where
  "example_bad_trace =
     [ListTools (Inr []),
      ChatCompletion (first_request example_client (lit ''bad'') [])
        (Inr [asking_for example_bad_calls]),
      CallTool (lit ''read_notes'') (lit ''{}'') (Inr (text_result (lit ''No notes yet.'') False))]"

text \<open>
  The trace of the query \<open>unknown\<close>: the tool host answers the unregistered name with an
  error result, whose text goes to the model like any other.
\<close>

definition example_unknown_trace :: "str event list" where
  "example_unknown_trace =
     [ListTools (Inr []),
      ChatCompletion (first_request example_client (lit ''unknown'') [])
        (Inr [asking_for example_unknown_calls]),
      CallTool (lit ''nope'') (lit ''{}'') (Inr (text_result (lit ''Unknown tool: nope'') True)),
      ChatCompletion
        (final_request example_client
           [UserMessage (lit ''unknown''),
            assistant_msg (asking_for example_unknown_calls),
            ToolMessage (lit ''call_1'') (lit ''Unknown tool: nope'')] [])
        (Inr [saying (lit ''Done.'')])]"

text \<open>The trace of the query \<open>down\<close>, which the model does not answer.\<close>

definition example_down_trace :: "str event list" where
  "example_down_trace =
     [ListTools (Inr []),
      ChatCompletion (first_request example_client (lit ''down'') []) (Inl example_api_error),
      Print (ErrorCallingAzureOpenAI example_api_error),
      Print (DeploymentNameUsed (lit ''gpt'')),
      Print ConfigurationHints]"

section \<open>Properties of the tool host\<close>


lemma isspace_LF: "isspace LF" by (simp add: isspace_def LF_def)
lemma isspace_CR: "isspace CR" by (simp add: isspace_def CR_def)

lemma strip_Nil_iff: "strip s = [] \<longleftrightarrow> list_all isspace s"
proof -
  have "strip s = [] \<longleftrightarrow> (\<forall>x \<in> set (dropWhile isspace s). isspace x)"
    by (simp add: strip_def dropWhile_eq_Nil_conv)
  also have "\<dots> \<longleftrightarrow> dropWhile isspace s = []"
  proof
    assume a: "\<forall>x \<in> set (dropWhile isspace s). isspace x"
    show "dropWhile isspace s = []"
    proof (rule ccontr)
      assume n: "dropWhile isspace s \<noteq> []"
      then have "\<not> isspace (hd (dropWhile isspace s))" by (rule hd_dropWhile)
      moreover from n have "hd (dropWhile isspace s) \<in> set (dropWhile isspace s)" by simp
      ultimately show False using a by blast
    qed
  next
    assume "dropWhile isspace s = []"
    then show "\<forall>x \<in> set (dropWhile isspace s). isspace x" by (simp only: set_simps ball_empty)
  qed
  also have "\<dots> \<longleftrightarrow> list_all isspace s"
    by (simp add: dropWhile_eq_Nil_conv list_all_iff)
  finally show ?thesis .
qed

lemma strip_snoc_space: "isspace c \<Longrightarrow> strip (s @ [c]) = strip s"
proof (cases "list_all isspace s")
  case True
  assume "isspace c"
  with True have "list_all isspace (s @ [c])" by simp
  then have "strip (s @ [c]) = []" by (simp only: strip_Nil_iff)
  moreover from True have "strip s = []" by (simp only: strip_Nil_iff)
  ultimately show ?thesis by simp
next
  case False
  assume c: "isspace c"
  from False obtain x where "x \<in> set s" "\<not> isspace x" by (auto simp: list_all_iff)
  then have "dropWhile isspace (s @ [c]) = dropWhile isspace s @ [c]"
    by (simp add: dropWhile_append1)
  with c show ?thesis by (simp add: strip_def)
qed

lemma universal_newlines_all_space:
  "list_all isspace (universal_newlines raw) = list_all isspace raw"
  by (induction raw rule: universal_newlines.induct) (auto simp: isspace_LF isspace_CR)

lemma universal_newlines_no_CR: "CR \<notin> set m \<Longrightarrow> universal_newlines m = m"
  by (induction m rule: universal_newlines.induct) auto

lemma universal_newlines_append:
  "xs = [] \<or> last xs \<noteq> CR \<Longrightarrow>
   universal_newlines (xs @ ys) = universal_newlines xs @ universal_newlines ys"
proof (induction xs rule: universal_newlines.induct)
  case 1
  then show ?case by simp
next
  case (2 c)
  then show ?case by (cases ys) auto
next
  case (3 c d cs)
  then show ?case by (auto split: if_splits)
qed

lemma universal_newlines_ends_LF:
  "raw \<noteq> [] \<Longrightarrow> last raw = LF \<Longrightarrow>
   universal_newlines raw \<noteq> [] \<and> last (universal_newlines raw) = LF"
  by (induction raw rule: universal_newlines.induct) (auto split: if_splits)

lemma text_lines_Nil_iff: "text_lines xs = [] \<longleftrightarrow> xs = []"
  by (cases xs) (auto split: list.splits)

lemma text_lines_cut: "text_lines (xs @ LF # ys) = text_lines (xs @ [LF]) @ text_lines ys"
proof (induction xs)
  case Nil
  then show ?case by simp
next
  case (Cons c xs)
  have ne: "text_lines (xs @ [LF]) \<noteq> []" by (simp add: text_lines_Nil_iff)
  then obtain l ls where s: "text_lines (xs @ [LF]) = l # ls" by (cases "text_lines (xs @ [LF])") auto
  show ?case using Cons s by simp
qed

lemma text_lines_one_line: "LF \<notin> set m \<Longrightarrow> text_lines (m @ [LF]) = [m @ [LF]]"
  by (induction m) auto

lemma last_line_after_append:
  assumes "t = [] \<or> last t = LF" and "LF \<notin> set m"
  shows "text_lines (t @ m @ [LF]) \<noteq> [] \<and> last (text_lines (t @ m @ [LF])) = m @ [LF]"
proof (cases "t = []")
  case True
  with assms(2) show ?thesis by (simp add: text_lines_one_line)
next
  case False
  with assms(1) obtain t' where t: "t = t' @ [LF]"
    by (metis append_butlast_last_id)
  have "text_lines (t @ m @ [LF]) = text_lines (t' @ [LF]) @ text_lines (m @ [LF])"
    unfolding t using text_lines_cut [of t' "m @ [LF]"] by simp
  with assms(2) show ?thesis by (simp add: text_lines_one_line)
qed

subsection \<open>The sticky-note tools\<close>


text \<open>
  Claim C9, as stated, fails on a file that holds the text of the default answer: the
  answer is \<open>No notes yet.\<close> although the file is neither absent, empty nor blank.
\<close>

theorem read_notes_sentinel_counterexample:
  "fst (read_notes (Some (lit ''No notes yet.''))) = Inr (lit ''No notes yet.'') \<and>
   \<not> blank_file (Some (lit ''No notes yet.''))"
  by (simp add: read_notes_def ensure_file_def file_read_def blank_file_def strip_def
        isspace_def lit_def CR_def LF_def Let_def)

text \<open>
  Claim C9, amended: \<open>read_notes\<close> returns \<open>No notes yet.\<close> whenever the notes file is
  absent, empty or holds whitespace only (and leaves an absent file created empty);
  otherwise it returns the whole text of the file, as text mode reads it, with leading and
  trailing whitespace stripped, and that result is not empty.
\<close>

theorem read_notes_result:
  "read_notes f =
     (Inr (if blank_file f then lit ''No notes yet.'' else strip (file_text f)), ensure_file f) \<and>
   (\<not> blank_file f \<longrightarrow> strip (file_text f) \<noteq> [])"
proof (cases f)
  case None
  then show ?thesis
    by (simp add: read_notes_def ensure_file_def file_write_def file_read_def blank_file_def
          strip_def)
next
  case (Some raw)
  have "strip (universal_newlines raw) = [] \<longleftrightarrow> list_all isspace raw"
    by (simp only: strip_Nil_iff universal_newlines_all_space)
  with Some show ?thesis
    by (simp add: read_notes_def ensure_file_def file_read_def blank_file_def file_text_def Let_def)
qed

text \<open>
  C9 on a file with one padded note that ends in \<open>\r\n\<close>, and on an absent file.
\<close>

theorem read_notes_result_witness:
  "read_notes (Some (lit '' buy milk'' @ [CR, LF])) =
     (Inr (lit ''buy milk''), Some (lit '' buy milk'' @ [CR, LF])) \<and>
   read_notes None = (Inr (lit ''No notes yet.''), Some [])"
  using read_notes_result [of "Some (lit '' buy milk'' @ [CR, LF])"] read_notes_result [of None]
  by (simp add: blank_file_def file_text_def ensure_file_def file_write_def strip_def isspace_def
        lit_def CR_def LF_def)

text \<open>
  Claim C10, as stated, fails on a notes file whose last line has no newline: the note
  \<open>x\<close> added to the file \<open>abc\<close> is saved, and read back as \<open>abcx\<close>.
\<close>

theorem add_note_latest_counterexample:
  "LF \<notin> set (lit ''x'') \<and>
   fst (add_note (lit ''x'') (Some (lit ''abc''))) = Inr (lit ''Note saved!'') \<and>
   fst (get_latest_note (snd (add_note (lit ''x'') (Some (lit ''abc''))))) = Inr (lit ''abcx'') \<and>
   strip (lit ''x'') = lit ''x'' \<and> lit ''abcx'' \<noteq> lit ''x''"
  by (simp add: get_latest_note_def add_note_def ensure_file_def file_append_def encode_check_def
        encodable_def file_readlines_def file_read_def lit_def LF_def CR_def strip_def isspace_def)

text \<open>
  Claim C10, amended. For every message \<open>m\<close> that contains no \<open>\n\<close> and that encodes (no
  surrogate): \<open>add_note m\<close> returns \<open>Note saved!\<close> and leaves the file with what it held
  before (nothing, if it was absent) followed by \<open>m\<close> and a newline; and if moreover \<open>m\<close>
  contains no \<open>\r\<close> and the file was absent, empty or ended with a newline, a following
  \<open>get_latest_note\<close> returns \<open>m\<close> with surrounding whitespace stripped.
\<close>

theorem add_note_appends_and_is_latest:
  "LF \<notin> set m \<and> list_all encodable m \<longrightarrow>
     add_note m f = (Inr (lit ''Note saved!''), Some (file_raw f @ m @ [LF])) \<and>
     (CR \<notin> set m \<and> newline_terminated f \<longrightarrow>
        get_latest_note (snd (add_note m f)) = (Inr (strip m), snd (add_note m f)))"
proof (intro impI, elim conjE)
  assume lf: "LF \<notin> set m" and enc: "list_all encodable m"
  have "encodable LF" by (simp add: encodable_def LF_def)
  with enc have chk: "encode_check (m @ [LF]) = Inr ()" by (simp add: encode_check_def)
  have a: "add_note m f = (Inr (lit ''Note saved!''), Some (file_raw f @ m @ [LF]))"
    using chk
    by (cases f) (simp_all add: add_note_def ensure_file_def file_write_def file_append_def file_raw_def)
  have b: "get_latest_note (Some (file_raw f @ m @ [LF])) = (Inr (strip m), Some (file_raw f @ m @ [LF]))"
    if nt: "newline_terminated f" and cr: "CR \<notin> set m"
  proof -
    let ?raw = "file_raw f"
    from nt have e: "?raw = [] \<or> last ?raw = LF"
      by (cases f) (simp_all add: newline_terminated_def file_raw_def)
    have ncr: "?raw = [] \<or> last ?raw \<noteq> CR"
      using e by (auto simp: LF_def CR_def)
    have m': "universal_newlines (m @ [LF]) = m @ [LF]"
      using cr by (intro universal_newlines_no_CR) (simp add: LF_def CR_def)
    have tx: "universal_newlines (?raw @ m @ [LF]) = universal_newlines ?raw @ m @ [LF]"
      using universal_newlines_append [OF ncr, of "m @ [LF]"] m' by simp
    have te: "universal_newlines ?raw = [] \<or> last (universal_newlines ?raw) = LF"
    proof (cases "?raw = []")
      case True
      then show ?thesis by simp
    next
      case False
      with e universal_newlines_ends_LF [of ?raw] show ?thesis by simp
    qed
    from last_line_after_append [OF te lf]
    have "text_lines (universal_newlines ?raw @ m @ [LF]) \<noteq> []"
      and "last (text_lines (universal_newlines ?raw @ m @ [LF])) = m @ [LF]"
      by simp_all
    then show ?thesis
      using tx strip_snoc_space [OF isspace_LF, of m]
      by (simp add: get_latest_note_def ensure_file_def file_readlines_def file_read_def)
  qed
  from a b show "add_note m f = (Inr (lit ''Note saved!''), Some (file_raw f @ m @ [LF])) \<and>
     (CR \<notin> set m \<and> newline_terminated f \<longrightarrow>
        get_latest_note (snd (add_note m f)) = (Inr (strip m), snd (add_note m f)))"
    by simp
qed

text \<open>
  C10 on a file that holds one note, adding a note with a trailing blank.
\<close>

theorem add_note_appends_and_is_latest_witness:
  "LF \<notin> set (lit ''buy milk '') \<and> list_all encodable (lit ''buy milk '') \<and>
   CR \<notin> set (lit ''buy milk '') \<and> newline_terminated (Some (lit ''eggs'' @ [LF])) \<and>
   add_note (lit ''buy milk '') (Some (lit ''eggs'' @ [LF])) =
     (Inr (lit ''Note saved!''), Some (lit ''eggs'' @ [LF] @ lit ''buy milk '' @ [LF])) \<and>
   get_latest_note (snd (add_note (lit ''buy milk '') (Some (lit ''eggs'' @ [LF])))) =
     (Inr (lit ''buy milk''), Some (lit ''eggs'' @ [LF] @ lit ''buy milk '' @ [LF]))"
  using add_note_appends_and_is_latest [of "lit ''buy milk ''" "Some (lit ''eggs'' @ [LF])"]
  by (simp add: newline_terminated_def file_raw_def strip_def isspace_def lit_def CR_def LF_def
        encodable_def add_note_def ensure_file_def file_append_def encode_check_def)

text \<open>
  Why the message must not contain \<open>\r\<close> either: text mode reads it as the end of a line, so
  the latest note after adding \<open>a\rb\<close> to an absent file is \<open>b\<close>.
\<close>

lemma add_note_carriage_return_example:
  "fst (get_latest_note (snd (add_note (lit ''a'' @ [CR] @ lit ''b'') None))) = Inr (lit ''b'')"
  by (simp add: get_latest_note_def add_note_def ensure_file_def file_write_def file_append_def
        encode_check_def encodable_def file_readlines_def file_read_def lit_def LF_def CR_def
        strip_def isspace_def)

text \<open>
  Why the message must encode: a message that holds the surrogate U+D800 is not saved.
  \<open>add_note\<close> raises \<open>UnicodeEncodeError\<close>, and the file keeps what it held.
\<close>

lemma add_note_surrogate_example:
  "add_note [55296] (Some (lit ''eggs'' @ [LF])) =
     (Inl (UnicodeEncodeError (lit ''utf-8 codec cannot encode character: surrogates not allowed'')),
      Some (lit ''eggs'' @ [LF]))"
  by (simp add: add_note_def ensure_file_def file_append_def encode_check_def encodable_def)

section \<open>Properties of the client\<close>

subsection \<open>Traces and the stages of a query\<close>


lemma model_calls_append: "model_calls (t1 @ t2) = model_calls t1 @ model_calls t2"
  by (induction t1 rule: model_calls.induct) simp_all

lemma tool_results_append: "tool_results (t1 @ t2) = tool_results t1 @ tool_results t2"
  by (induction t1 rule: tool_results.induct) simp_all

lemma tool_invocations_append:
  "tool_invocations (t1 @ t2) = tool_invocations t1 @ tool_invocations t2"
  by (induction t1 rule: tool_invocations.induct) simp_all

lemma print_line_cases:
  "print_line out w = (Inr (), [Print out], w) \<or> (\<exists>e. print_line out w = (Inl e, [], w))"
  by (simp add: print_line_def split: sum.splits)

lemma print_line_encodable:
  "list_all encodable (printed_text out) \<Longrightarrow> print_line out w = (Inr (), [Print out], w)"
  by (simp add: print_line_def encode_check_def)

lemma resolve_tool_calls_model_calls:
  "resolve_tool_calls env tcs ms w = (r, t, w') \<Longrightarrow> model_calls t = []"
proof (induction tcs arbitrary: ms w r t w')
  case Nil
  then show ?case by (simp add: io_return_def)
next
  case (Cons tc rest)
  then show ?case
    by (auto simp: io_bind_def io_lift_def external_def model_calls_append
             split: sum.splits prod.splits)
qed

lemma resolve_tool_calls_ok:
  "resolve_tool_calls env tcs ms w = (Inr ms', t, w') \<Longrightarrow>
   \<exists>texts. length texts = length tcs \<and>
     ms' = ms @ map (\<lambda>(tc, text). ToolMessage (tc_id tc) text) (zip tcs texts) \<and>
     map tool_content (tool_results t) = map Inr texts \<and>
     length (tool_invocations t) = length tcs"
proof (induction tcs arbitrary: ms w t w')
  case Nil
  then show ?case by (simp add: io_return_def)
next
  case (Cons tc rest)
  from Cons.prems obtain args v x w1 t2 where
    a: "json_loads env (fn_arguments (tc_function tc)) = Inr args"
    and b: "session_call_tool env (fn_name (tc_function tc)) args w = (Inr v, w1)"
    and c: "tool_content (tr_content v) = Inr x"
    and d: "resolve_tool_calls env rest (ms @ [ToolMessage (tc_id tc) x]) w1 = (Inr ms', t2, w')"
    and e: "t = CallTool (fn_name (tc_function tc)) args (Inr v) # t2"
    by (auto simp: io_bind_def io_lift_def external_def split: sum.splits prod.splits)
  from Cons.IH [OF d] obtain texts where
    t: "length texts = length rest"
       "ms' = (ms @ [ToolMessage (tc_id tc) x]) @ map (\<lambda>(tc, text). ToolMessage (tc_id tc) text) (zip rest texts)"
       "map tool_content (tool_results t2) = map Inr texts"
       "length (tool_invocations t2) = length rest"
    by blast
  show ?case
    by (rule exI [of _ "x # texts"]) (use t c e in simp)
qed


lemmas io_defs = io_bind_def io_try_def io_lift_def io_return_def io_raise_def external_def

lemma pq_no_session:
  "\<not> session c \<Longrightarrow> \<exists>e. process_query env c q w = (Inl e, [], w)"
  by (simp add: process_query_def get_mcp_tools_def io_defs)

lemma pq_list_failed:
  "session c \<Longrightarrow> session_list_tools env w = (Inl e, w1) \<Longrightarrow>
   process_query env c q w = (Inl e, [ListTools (Inl e)], w1)"
  by (simp add: process_query_def get_mcp_tools_def io_defs)

lemma print_lines_trace:
  "print_lines outs w = (r, t, w') \<Longrightarrow>
   model_calls t = [] \<and> tool_invocations t = [] \<and> w' = w"
  by (induction outs arbitrary: r t)
     (auto simp: io_return_def io_bind_def print_line_def split: sum.splits prod.splits)

lemma pq_first_failed:
  fixes env :: "('w, 'j) env"
  assumes "session c" and "session_list_tools env w = (Inr tools, w1)"
    and "chat_completions_create env (first_request c q (map openai_format tools)) w1 = (Inl e, w2)"
  shows "\<exists>e' t'. process_query env c q w =
           (Inl e',
            [ListTools (Inr tools),
             ChatCompletion (first_request c q (map openai_format tools)) (Inl e)] @ t',
            w2) \<and> model_calls t' = [] \<and> tool_invocations t' = []"
proof (cases "isinstance_Exception e")
  case False
  with assms show ?thesis
    by (simp add: process_query_def get_mcp_tools_def io_defs report_and_reraise_def)
next
  case True
  obtain r t w' where
    p: "print_lines [ErrorCallingAzureOpenAI e, DeploymentNameUsed (deployment_name c),
                     ConfigurationHints] w2 = (r :: py_exception + unit, t :: 'j event list, w')"
    using prod_cases3 by blast
  from print_lines_trace [OF p] have t: "model_calls t = []" "tool_invocations t = []" "w' = w2"
    by simp_all
  show ?thesis
  proof (cases r)
    case (Inl e')
    with assms True p t show ?thesis
      by (simp add: process_query_def get_mcp_tools_def io_defs report_and_reraise_def
            del: print_lines.simps)
  next
    case (Inr u)
    with assms True p t show ?thesis
      by (simp add: process_query_def get_mcp_tools_def io_defs report_and_reraise_def
            del: print_lines.simps)
  qed
qed

lemma pq_first_failed_reported:
  assumes "session c" and "session_list_tools env w = (Inr tools, w1)"
    and "chat_completions_create env (first_request c q (map openai_format tools)) w1 = (Inl e, w2)"
    and "isinstance_Exception e"
    and "list_all encodable (exception_str e)"
    and "list_all encodable (deployment_name c)"
  shows "process_query env c q w =
           (Inl e,
            [ListTools (Inr tools),
             ChatCompletion (first_request c q (map openai_format tools)) (Inl e),
             Print (ErrorCallingAzureOpenAI e), Print (DeploymentNameUsed (deployment_name c)),
             Print ConfigurationHints],
            w2)"
  using assms
  by (simp add: process_query_def get_mcp_tools_def io_defs report_and_reraise_def
        print_line_encodable)

lemma pq_no_choice:
  "session c \<Longrightarrow> session_list_tools env w = (Inr tools, w1) \<Longrightarrow>
   chat_completions_create env (first_request c q (map openai_format tools)) w1 = (Inr [], w2) \<Longrightarrow>
   process_query env c q w =
     (Inl (IndexError (lit ''list index out of range'')),
      [ListTools (Inr tools), ChatCompletion (first_request c q (map openai_format tools)) (Inr [])],
      w2)"
  by (simp add: process_query_def get_mcp_tools_def io_defs first_message_def)

lemma pq_direct:
  "session c \<Longrightarrow> session_list_tools env w = (Inr tools, w1) \<Longrightarrow>
   chat_completions_create env (first_request c q (map openai_format tools)) w1 = (Inr (m # ch), w2) \<Longrightarrow>
   \<not> truthy (msg_tool_calls m) \<Longrightarrow>
   process_query env c q w =
     (Inr (msg_content m),
      [ListTools (Inr tools), ChatCompletion (first_request c q (map openai_format tools)) (Inr (m # ch))],
      w2)"
  by (simp add: process_query_def get_mcp_tools_def io_defs first_message_def truthy_def
           split: option.splits)

lemma pq_aborted:
  "session c \<Longrightarrow> session_list_tools env w = (Inr tools, w1) \<Longrightarrow>
   chat_completions_create env (first_request c q (map openai_format tools)) w1 = (Inr (m # ch), w2) \<Longrightarrow>
   msg_tool_calls m = Some tcs \<Longrightarrow> tcs \<noteq> [] \<Longrightarrow>
   resolve_tool_calls env tcs [UserMessage q, assistant_msg m] w2 = (Inl e, tt, w3) \<Longrightarrow>
   process_query env c q w =
     (Inl e,
      [ListTools (Inr tools), ChatCompletion (first_request c q (map openai_format tools)) (Inr (m # ch))] @ tt,
      w3)"
  by (simp add: process_query_def get_mcp_tools_def io_defs first_message_def)

lemma pq_resolved:
  "session c \<Longrightarrow> session_list_tools env w = (Inr tools, w1) \<Longrightarrow>
   chat_completions_create env (first_request c q (map openai_format tools)) w1 = (Inr (m # ch), w2) \<Longrightarrow>
   msg_tool_calls m = Some tcs \<Longrightarrow> tcs \<noteq> [] \<Longrightarrow>
   resolve_tool_calls env tcs [UserMessage q, assistant_msg m] w2 = (Inr ms, tt, w3) \<Longrightarrow>
   chat_completions_create env (final_request c ms (map openai_format tools)) w3 = (resp2, w4) \<Longrightarrow>
   process_query env c q w =
     (case resp2 of
        Inl e \<Rightarrow> Inl e
      | Inr final_choices \<Rightarrow>
          (case first_message final_choices of
             Inl e \<Rightarrow> Inl e
           | Inr final_message \<Rightarrow> Inr (msg_content final_message)),
      [ListTools (Inr tools), ChatCompletion (first_request c q (map openai_format tools)) (Inr (m # ch))] @ tt @
      [ChatCompletion (final_request c ms (map openai_format tools)) resp2],
      w4)"
  by (simp add: process_query_def get_mcp_tools_def io_defs first_message_def
           split: sum.splits list.splits)


lemma process_query_cases [consumes 1, case_names no_call first_failed direct aborted resolved]:
  assumes run: "process_query env c q w = (r, t, w')"
  obtains
    (no_call) e where "r = Inl e" "model_calls t = []" "tool_invocations t = []"
  | (first_failed) e tools resp where "r = Inl e"
      "model_calls t = [(first_request c q tools, resp)]" "(\<exists>e'. resp = Inl e') \<or> resp = Inr []"
      "tool_invocations t = []"
  | (direct) tools m ch where "r = Inr (msg_content m)"
      "model_calls t = [(first_request c q tools, Inr (m # ch))]"
      "\<not> truthy (msg_tool_calls m)" "tool_invocations t = []"
  | (aborted) e tools m ch tcs where "r = Inl e"
      "model_calls t = [(first_request c q tools, Inr (m # ch))]"
      "msg_tool_calls m = Some tcs" "tcs \<noteq> []"
  | (resolved) tools m ch tcs texts resp2 where
      "model_calls t =
         [(first_request c q tools, Inr (m # ch)),
          (final_request c
             (UserMessage q # assistant_msg m #
              map (\<lambda>(tc, s). ToolMessage (tc_id tc) s) (zip tcs texts)) tools, resp2)]"
      "msg_tool_calls m = Some tcs" "tcs \<noteq> []" "length texts = length tcs"
      "map tool_content (tool_results t) = map Inr texts"
      "length (tool_invocations t) = length tcs"
      "r = (case resp2 of
              Inl e \<Rightarrow> Inl e
            | Inr final_choices \<Rightarrow>
                (case first_message final_choices of
                   Inl e \<Rightarrow> Inl e
                 | Inr final_message \<Rightarrow> Inr (msg_content final_message)))"
proof (cases "session c")
  case False
  from pq_no_session [OF False, where env = env and q = q and w = w] obtain e where "process_query env c q w = (Inl e, [], w)"
    by blast
  with run show ?thesis
    by (auto intro: no_call)
next
  case s: True
  obtain lr w1 where l: "session_list_tools env w = (lr, w1)"
    by (cases "session_list_tools env w")
  show ?thesis
  proof (cases lr)
    case (Inl e)
    with l have "session_list_tools env w = (Inl e, w1)" by simp
    from pq_list_failed [OF s this] run show ?thesis
      by (auto intro: no_call)
  next
    case (Inr tools)
    let ?req = "first_request c q (map openai_format tools)"
    from l Inr have l': "session_list_tools env w = (Inr tools, w1)" by simp
    obtain cr w2 where ch: "chat_completions_create env ?req w1 = (cr, w2)"
      by (cases "chat_completions_create env ?req w1")
    show ?thesis
    proof (cases cr)
      case (Inl e)
      with ch have "chat_completions_create env ?req w1 = (Inl e, w2)" by simp
      from pq_first_failed [OF s l' this] obtain e' t' where
        "process_query env c q w =
           (Inl e', [ListTools (Inr tools), ChatCompletion ?req (Inl e)] @ t', w2)"
        "model_calls t' = []" "tool_invocations t' = []"
        by blast
      with run show ?thesis
        by (auto intro!: first_failed [of e' "map openai_format tools" "Inl e"]
                 simp: model_calls_append tool_invocations_append)
    next
      case cr: (Inr choices)
      show ?thesis
      proof (cases choices)
        case Nil
        with ch cr have "chat_completions_create env ?req w1 = (Inr [], w2)" by simp
        from pq_no_choice [OF s l' this] run show ?thesis
          by (auto intro!: first_failed [of _ "map openai_format tools" "Inr []"])
      next
        case (Cons m rest)
        with ch cr have ch': "chat_completions_create env ?req w1 = (Inr (m # rest), w2)" by simp
        show ?thesis
        proof (cases "truthy (msg_tool_calls m)")
          case False
          with pq_direct [OF s l' ch'] run show ?thesis
            by (auto intro!: direct [of m "map openai_format tools" rest])
        next
          case True
          then obtain tcs where tcs: "msg_tool_calls m = Some tcs" "tcs \<noteq> []"
            by (auto simp: truthy_def split: option.splits)
          obtain rr tt w3 where
            res: "resolve_tool_calls env tcs [UserMessage q, assistant_msg m] w2 = (rr, tt, w3)"
            by (cases "resolve_tool_calls env tcs [UserMessage q, assistant_msg m] w2")
          have mc: "model_calls tt = []" by (rule resolve_tool_calls_model_calls [OF res])
          show ?thesis
          proof (cases rr)
            case (Inl e)
            with res have "resolve_tool_calls env tcs [UserMessage q, assistant_msg m] w2 = (Inl e, tt, w3)"
              by simp
            from pq_aborted [OF s l' ch' tcs this] run mc tcs show ?thesis
              by (auto intro!: aborted [of e "map openai_format tools" m rest tcs]
                       simp: model_calls_append)
          next
            case (Inr ms)
            with res have res': "resolve_tool_calls env tcs [UserMessage q, assistant_msg m] w2 = (Inr ms, tt, w3)"
              by simp
            from resolve_tool_calls_ok [OF res'] obtain texts where
              tx: "length texts = length tcs"
                  "ms = [UserMessage q, assistant_msg m] @ map (\<lambda>(tc, s). ToolMessage (tc_id tc) s) (zip tcs texts)"
                  "map tool_content (tool_results tt) = map Inr texts"
                  "length (tool_invocations tt) = length tcs"
              by blast
            obtain resp2 w4 where
              ch2: "chat_completions_create env (final_request c ms (map openai_format tools)) w3 = (resp2, w4)"
              by (cases "chat_completions_create env (final_request c ms (map openai_format tools)) w3")
            from pq_resolved [OF s l' ch' tcs res' ch2] run
            have r: "r = (case resp2 of Inl e \<Rightarrow> Inl e
                          | Inr final_choices \<Rightarrow>
                              (case first_message final_choices of Inl e \<Rightarrow> Inl e
                               | Inr final_message \<Rightarrow> Inr (msg_content final_message)))"
              and t: "t = [ListTools (Inr tools), ChatCompletion ?req (Inr (m # rest))] @ tt @
                          [ChatCompletion (final_request c ms (map openai_format tools)) resp2]"
              by simp_all
            show ?thesis
            proof (rule resolved [of "map openai_format tools" m rest tcs texts resp2])
              show "model_calls t =
                [(first_request c q (map openai_format tools), Inr (m # rest)),
                 (final_request c (UserMessage q # assistant_msg m #
                    map (\<lambda>(tc, s). ToolMessage (tc_id tc) s) (zip tcs texts)) (map openai_format tools), resp2)]"
                using t mc tx(2) by (simp add: model_calls_append)
              show "map tool_content (tool_results t) = map Inr texts"
                using t tx(3) by (simp add: tool_results_append)
              show "length (tool_invocations t) = length tcs"
                using t tx(4) by (simp add: tool_invocations_append)
            qed (use tcs tx r in simp_all)
          qed
        qed
      qed
    qed
  qed
qed

subsection \<open>Runs in the example world\<close>

lemmas example_defs =
  example_env_def example_client_def example_chat_def example_call_tool_def
  example_json_loads_def example_tool_call_def example_input_def
  example_notes_calls_def example_bad_calls_def example_unknown_calls_def
  asking_for_def saying_def text_result_def example_api_error_def

lemmas query_defs =
  process_query_def get_mcp_tools_def io_defs first_message_def first_request_def
  final_request_def tool_content_def assistant_msg_def tool_call_dict_of_def
  openai_format_def report_and_reraise_def print_line_def encode_check_def encodable_def
  isinstance_Exception_def

lemmas notes_defs =
  read_notes_def ensure_file_def file_write_def file_read_def strip_def isspace_def
  lit_def CR_def LF_def Let_def

lemma example_notes_run:
  "process_query example_env example_client (lit ''notes'') (None, []) =
     (Inr (Some (lit ''Done.'')), example_notes_trace, (Some [], []))"
  by (simp add: query_defs example_defs notes_defs example_notes_trace_def example_notes_messages_def)

lemma example_notes_model_calls:
  "model_calls example_notes_trace =
     [(first_request example_client (lit ''notes'') [], Inr [asking_for example_notes_calls]),
      (final_request example_client example_notes_messages [], Inr [saying (lit ''Done.'')])]"
  by (simp add: example_notes_trace_def)

lemma example_session: "session example_client"
  by (simp add: example_client_def)

lemma example_list_tools: "session_list_tools example_env w = (Inr [], w)"
  by (simp add: example_env_def)

lemma example_notes_first_call:
  "chat_completions_create example_env
     (first_request example_client (lit ''notes'') (map openai_format [])) (None, []) =
   (Inr (asking_for example_notes_calls # []), (None, []))"
  by (simp add: example_env_def example_chat_def first_request_def lit_def)

lemma example_notes_resolve:
  "resolve_tool_calls example_env example_notes_calls
     [UserMessage (lit ''notes''), assistant_msg (asking_for example_notes_calls)] (None, []) =
   (Inr example_notes_messages,
    [CallTool (lit ''read_notes'') (lit ''{}'') (Inr (text_result (lit ''No notes yet.'') False)),
     CallTool (lit ''noop'') (lit ''{}'') (Inr \<lparr>tr_content = ListValue [], tr_isError = False\<rparr>)],
    (Some [], []))"
  by (simp add: query_defs example_defs notes_defs example_notes_messages_def)

lemma example_hello_run:
  "process_query example_env example_client (lit ''hello'') (None, []) =
     (Inr (Some (lit ''Hi!'')),
      [ListTools (Inr []),
       ChatCompletion (first_request example_client (lit ''hello'') []) (Inr [saying (lit ''Hi!'')])],
      (None, []))"
  by (simp add: query_defs example_defs notes_defs)

lemma example_bad_run:
  "process_query example_env example_client (lit ''bad'') (None, []) =
     (Inl (JSONDecodeError
             (lit ''Expecting property name enclosed in double quotes: line 1 column 2 (char 1)'')),
      example_bad_trace, (Some [], []))"
  by (simp add: query_defs example_defs notes_defs example_bad_trace_def)

lemma example_unknown_run:
  "process_query example_env example_client (lit ''unknown'') w =
     (Inr (Some (lit ''Done.'')), example_unknown_trace, w)"
  by (cases w) (simp add: query_defs example_defs notes_defs example_unknown_trace_def)

lemma example_down_run:
  "process_query example_env example_client (lit ''down'') w =
     (Inl example_api_error, example_down_trace, w)"
  by (cases w) (simp add: query_defs example_defs notes_defs example_down_trace_def)

subsection \<open>The loop over the tool calls, cut at a request\<close>

lemma resolve_tool_calls_append:
  "resolve_tool_calls env (xs @ ys) ms w =
     io_bind (resolve_tool_calls env xs ms) (resolve_tool_calls env ys) w"
proof (induction xs arbitrary: ms w)
  case Nil
  then show ?case by (simp add: io_bind_def io_return_def)
next
  case (Cons tc xs)
  then show ?case
    by (simp add: io_bind_def io_lift_def external_def split: sum.splits prod.splits)
qed

lemma resolve_tool_calls_decode_failure:
  assumes "i < length tcs"
    and "json_loads env (fn_arguments (tc_function (tcs ! i))) = Inl e"
    and "resolve_tool_calls env (take i tcs) ms w = (Inr ms1, tt, w1)"
  shows "resolve_tool_calls env tcs ms w = (Inl e, tt, w1)"
proof -
  from assms(1) have "tcs = take i tcs @ (tcs ! i) # drop (Suc i) tcs"
    by (simp add: id_take_nth_drop)
  then have "resolve_tool_calls env tcs ms w =
      io_bind (resolve_tool_calls env (take i tcs) ms)
        (resolve_tool_calls env ((tcs ! i) # drop (Suc i) tcs)) w"
    using resolve_tool_calls_append [of env "take i tcs" "(tcs ! i) # drop (Suc i) tcs" ms w]
    by simp
  with assms(2,3) show ?thesis
    by (simp add: io_bind_def io_lift_def)
qed

text \<open>When the loop over the tool calls ends normally, the model is called a second time.\<close>

lemma second_call_issued:
  assumes "process_query env c q w = (r, t, w')"
    and "session c" and "session_list_tools env w = (Inr tools, w1)"
    and "chat_completions_create env (first_request c q (map openai_format tools)) w1 =
           (Inr (m # choices), w2)"
    and "msg_tool_calls m = Some tcs" and "tcs \<noteq> []"
    and "resolve_tool_calls env tcs [UserMessage q, assistant_msg m] w2 = (Inr ms, tt, w3)"
  shows "\<exists>resp2. model_calls t =
           [(first_request c q (map openai_format tools), Inr (m # choices)),
            (final_request c ms (map openai_format tools), resp2)]"
    and "ms ! 1 = assistant_msg m"
proof -
  obtain resp2 w4 where
    c2: "chat_completions_create env (final_request c ms (map openai_format tools)) w3 = (resp2, w4)"
    by (cases "chat_completions_create env (final_request c ms (map openai_format tools)) w3")
  have "model_calls tt = []" by (rule resolve_tool_calls_model_calls [OF assms(7)])
  with pq_resolved [OF assms(2-7) c2] assms(1)
  show "\<exists>resp2. model_calls t =
           [(first_request c q (map openai_format tools), Inr (m # choices)),
            (final_request c ms (map openai_format tools), resp2)]"
    by (auto simp: model_calls_append)
  from resolve_tool_calls_ok [OF assms(7)] show "ms ! 1 = assistant_msg m" by auto
qed

subsection \<open>The tool-call resolution protocol\<close>

text \<open>
  Claim C1. In every run of \<open>process_query\<close> that issues a second model call after a
  first response carrying the tool call requests \<open>tcs\<close>, there is at least one request,
  every request was invoked once, and the messages of the second call are \<open>2 + N\<close>: the
  user message, the normalized assistant message, then one tool message per request, in
  the order of the requests, each with the \<open>id\<close> of its request and a string as content.
\<close>

theorem second_call_messages:
  assumes "process_query env c query w = (r, t, w')"
    and "model_calls t = (req1, Inr (m # choices)) # (req2, resp2) # later"
    and "msg_tool_calls m = Some tcs"
  shows "1 \<le> length tcs \<and>
         length (tool_invocations t) = length tcs \<and>
         length (req_messages req2) = 2 + length tcs \<and>
         (\<exists>texts. length texts = length tcs \<and>
            req_messages req2 =
              UserMessage query # assistant_msg m #
              map (\<lambda>(tc, s). ToolMessage (tc_id tc) s) (zip tcs texts))"
  using assms(1)
proof (cases rule: process_query_cases)
  case (resolved tools m' ch tcs' texts resp)
  with assms(2,3) have "m' = m" "tcs' = tcs"
    and "req2 = final_request c (UserMessage query # assistant_msg m #
              map (\<lambda>(tc, s). ToolMessage (tc_id tc) s) (zip tcs texts)) tools"
    by auto
  with resolved show ?thesis
    by (auto simp: final_request_def intro!: exI [of _ texts] simp: Suc_le_eq)
qed (use assms(2) in simp_all)

text \<open>
  C1 on the query \<open>notes\<close>, whose first response carries two requests.
\<close>

theorem second_call_messages_witness:
  "process_query example_env example_client (lit ''notes'') (None, []) =
     (Inr (Some (lit ''Done.'')), example_notes_trace, (Some [], [])) \<and>
   length example_notes_calls = 2 \<and>
   length (tool_invocations example_notes_trace) = 2 \<and>
   length (req_messages (final_request example_client example_notes_messages [])) = 4 \<and>
   map role example_notes_messages = [lit ''user'', lit ''assistant'', lit ''tool'', lit ''tool''] \<and>
   map tool_call_id (drop 2 example_notes_messages) = map tc_id example_notes_calls"
  using second_call_messages [OF example_notes_run example_notes_model_calls,
      of example_notes_calls] example_notes_run
  by (simp add: asking_for_def example_notes_calls_def example_notes_messages_def
        example_tool_call_def final_request_def assistant_msg_def)

text \<open>
  Claim C5. When the first model response carries tool call requests and the loop over
  them ends normally, a second model call is issued, and the second message of that call
  is the assistant message. In every run that issues a second model call, that message has
  as content the text of the model, or the empty string if there was none, and carries one
  dictionary per request with the \<open>id\<close>, the \<open>type\<close>, the function name and the raw arguments
  string of the request, unchanged.
\<close>

theorem replayed_assistant_message:
  assumes "process_query env c query w = (r, t, w')"
  shows "(\<forall>req1 m choices req2 resp2 later tcs.
            model_calls t = (req1, Inr (m # choices)) # (req2, resp2) # later \<and>
            msg_tool_calls m = Some tcs \<longrightarrow>
            role (req_messages req2 ! 1) = lit ''assistant'' \<and>
            content (req_messages req2 ! 1) = (case msg_content m of None \<Rightarrow> [] | Some s \<Rightarrow> s) \<and>
            (\<exists>ds. tool_calls (req_messages req2 ! 1) = Some ds \<and> length ds = length tcs \<and>
               (\<forall>i < length tcs.
                  tcd_id (ds ! i) = tc_id (tcs ! i) \<and>
                  tcd_type (ds ! i) = tc_type (tcs ! i) \<and>
                  fd_name (tcd_function (ds ! i)) = fn_name (tc_function (tcs ! i)) \<and>
                  fd_arguments (tcd_function (ds ! i)) = fn_arguments (tc_function (tcs ! i))))) \<and>
         (\<forall>tools w1 m choices w2 tcs ms tt w3.
            session c \<and> session_list_tools env w = (Inr tools, w1) \<and>
            chat_completions_create env (first_request c query (map openai_format tools)) w1 =
              (Inr (m # choices), w2) \<and>
            msg_tool_calls m = Some tcs \<and> tcs \<noteq> [] \<and>
            resolve_tool_calls env tcs [UserMessage query, assistant_msg m] w2 = (Inr ms, tt, w3) \<longrightarrow>
            (\<exists>resp2. model_calls t =
               [(first_request c query (map openai_format tools), Inr (m # choices)),
                (final_request c ms (map openai_format tools), resp2)]) \<and>
            ms ! 1 = assistant_msg m)"
proof (intro conjI allI impI)
  fix req1 m choices req2 resp2 later tcs
  assume a: "model_calls t = (req1, Inr (m # choices)) # (req2, resp2) # later \<and>
             msg_tool_calls m = Some tcs"
  from assms show "role (req_messages req2 ! 1) = lit ''assistant''"
  proof (cases rule: process_query_cases)
    case (resolved tools m' ch tcs' texts resp)
    with a show ?thesis by (auto simp: final_request_def assistant_msg_def)
  qed (use a in simp_all)
  from assms show "content (req_messages req2 ! 1) = (case msg_content m of None \<Rightarrow> [] | Some s \<Rightarrow> s)"
  proof (cases rule: process_query_cases)
    case (resolved tools m' ch tcs' texts resp)
    with a show ?thesis
      by (auto simp: final_request_def assistant_msg_def split: option.splits)
  qed (use a in simp_all)
  from assms show "\<exists>ds. tool_calls (req_messages req2 ! 1) = Some ds \<and> length ds = length tcs \<and>
               (\<forall>i < length tcs.
                  tcd_id (ds ! i) = tc_id (tcs ! i) \<and>
                  tcd_type (ds ! i) = tc_type (tcs ! i) \<and>
                  fd_name (tcd_function (ds ! i)) = fn_name (tc_function (tcs ! i)) \<and>
                  fd_arguments (tcd_function (ds ! i)) = fn_arguments (tc_function (tcs ! i)))"
  proof (cases rule: process_query_cases)
    case (resolved tools m' ch tcs' texts resp)
    with a have "m' = m" "tcs' = tcs" "req_messages req2 ! 1 = assistant_msg m"
      by (auto simp: final_request_def)
    with resolved a show ?thesis
      by (auto simp: assistant_msg_def tool_call_dict_of_def)
  qed (use a in simp_all)
next
  fix tools w1 m choices w2 tcs ms tt w3
  assume f: "session c \<and> session_list_tools env w = (Inr tools, w1) \<and>
            chat_completions_create env (first_request c query (map openai_format tools)) w1 =
              (Inr (m # choices), w2) \<and>
            msg_tool_calls m = Some tcs \<and> tcs \<noteq> [] \<and>
            resolve_tool_calls env tcs [UserMessage query, assistant_msg m] w2 = (Inr ms, tt, w3)"
  then have h: "session c" "session_list_tools env w = (Inr tools, w1)"
    "chat_completions_create env (first_request c query (map openai_format tools)) w1 =
       (Inr (m # choices), w2)"
    "msg_tool_calls m = Some tcs" "tcs \<noteq> []"
    "resolve_tool_calls env tcs [UserMessage query, assistant_msg m] w2 = (Inr ms, tt, w3)"
    by simp_all
  from second_call_issued [OF assms h]
  show "\<exists>resp2. model_calls t =
               [(first_request c query (map openai_format tools), Inr (m # choices)),
                (final_request c ms (map openai_format tools), resp2)]"
    and "ms ! 1 = assistant_msg m"
    by simp_all
qed

text \<open>
  C5 on the query \<open>notes\<close>: the run issues the second call, and replays an assistant
  message with no text from the model and the two requests.
\<close>

theorem replayed_assistant_message_witness:
  "session example_client \<and>
   session_list_tools example_env (None, []) = (Inr [], (None, [])) \<and>
   msg_tool_calls (asking_for example_notes_calls) = Some example_notes_calls \<and>
   example_notes_calls \<noteq> [] \<and>
   length (model_calls (fst (snd (process_query example_env example_client (lit ''notes'') (None, []))))) = 2 \<and>
   req_messages (fst (model_calls (fst (snd
       (process_query example_env example_client (lit ''notes'') (None, [])))) ! 1)) ! 1 =
     AssistantMessage []
       (Some [\<lparr>tcd_id = lit ''call_1'', tcd_type = lit ''function'',
               tcd_function = \<lparr>fd_name = lit ''read_notes'', fd_arguments = lit ''{}''\<rparr>\<rparr>,
             \<lparr>tcd_id = lit ''call_2'', tcd_type = lit ''function'',
               tcd_function = \<lparr>fd_name = lit ''noop'', fd_arguments = lit ''{}''\<rparr>\<rparr>])"
proof -
  have t: "msg_tool_calls (asking_for example_notes_calls) = Some example_notes_calls"
    and n: "example_notes_calls \<noteq> []"
    by (simp_all add: asking_for_def example_notes_calls_def)
  from replayed_assistant_message [OF example_notes_run]
  have "(\<exists>resp2. model_calls example_notes_trace =
               [(first_request example_client (lit ''notes'') (map openai_format []),
                 Inr (asking_for example_notes_calls # [])),
                (final_request example_client example_notes_messages (map openai_format []), resp2)]) \<and>
        example_notes_messages ! 1 = assistant_msg (asking_for example_notes_calls)"
    using example_session example_list_tools [of "(None, [])"] example_notes_first_call t n
      example_notes_resolve
    by blast
  then show ?thesis
    using example_session example_list_tools [of "(None, [])"] t n
    by (auto simp: example_notes_run final_request_def assistant_msg_def asking_for_def
          example_notes_calls_def example_tool_call_def tool_call_dict_of_def)
qed

text \<open>
  Claim C2, as stated, fails on a tool result whose content is an empty list: the tool
  message carries the empty string, while the string form of the value is \<open>[]\<close>.
\<close>

theorem tool_content_empty_list_counterexample:
  "process_query example_env example_client (lit ''notes'') (None, []) =
     (Inr (Some (lit ''Done.'')), example_notes_trace, (Some [], [])) \<and>
   tool_results example_notes_trace ! 1 = ListValue [] \<and>
   req_messages (fst (model_calls example_notes_trace ! 1)) ! 3 = ToolMessage (lit ''call_2'') [] \<and>
   specified_tool_content (ListValue []) = Inr (lit ''[]'') \<and>
   lit ''[]'' \<noteq> []"
  using example_notes_run
  by (simp add: example_notes_trace_def example_notes_messages_def final_request_def
        specified_tool_content_def py_str_def lit_def)

text \<open>
  Claim C2, amended. In every run that issues a second model call, each tool invocation
  that returned has its tool message, in order, and the content of the message is: the
  text of the first element when \<open>result.content\<close> is a non-empty list; the string form of
  the value when it is another true value; the empty string when it is \<open>None\<close>, an empty
  list or another false value.
\<close>

theorem tool_message_content:
  assumes "process_query env c query w = (r, t, w')"
    and "model_calls t = (req1, resp1) # (req2, resp2) # later"
  shows "length (tool_results t) = length (req_messages req2) - 2 \<and>
         (\<forall>i < length (tool_results t).
            (case tool_results t ! i of
               NoneValue \<Rightarrow> content (req_messages req2 ! (2 + i)) = []
             | ListValue [] \<Rightarrow> content (req_messages req2 ! (2 + i)) = []
             | ListValue (b # bs) \<Rightarrow> block_text b = Some (content (req_messages req2 ! (2 + i)))
             | ObjectValue true_value s \<Rightarrow>
                 content (req_messages req2 ! (2 + i)) = (if true_value then s else [])))"
  using assms(1)
proof (cases rule: process_query_cases)
  case (resolved tools m ch tcs texts resp)
  from resolved(1) assms(2) have
    ms: "req_messages req2 = UserMessage query # assistant_msg m #
              map (\<lambda>(tc, s). ToolMessage (tc_id tc) s) (zip tcs texts)"
    by (auto simp: final_request_def)
  from resolved(5) have len: "length (tool_results t) = length texts"
    by (metis length_map)
  have each: "tool_content (tool_results t ! i) = Inr (content (req_messages req2 ! (2 + i)))"
    if "i < length (tool_results t)" for i
  proof -
    from that len resolved(4) have i: "i < length texts" "i < length tcs" by simp_all
    from resolved(5) that have "tool_content (tool_results t ! i) = Inr (texts ! i)"
      by (metis len nth_map)
    moreover from i ms have "content (req_messages req2 ! (2 + i)) = texts ! i"
      by simp
    ultimately show ?thesis by simp
  qed
  have "length (tool_results t) = length (req_messages req2) - 2"
    using ms len resolved(4) by simp
  moreover have "\<forall>i < length (tool_results t).
            (case tool_results t ! i of
               NoneValue \<Rightarrow> content (req_messages req2 ! (2 + i)) = []
             | ListValue [] \<Rightarrow> content (req_messages req2 ! (2 + i)) = []
             | ListValue (b # bs) \<Rightarrow> block_text b = Some (content (req_messages req2 ! (2 + i)))
             | ObjectValue true_value s \<Rightarrow>
                 content (req_messages req2 ! (2 + i)) = (if true_value then s else []))"
  proof (intro allI impI)
    fix i assume "i < length (tool_results t)"
    from each [OF this] show "(case tool_results t ! i of
               NoneValue \<Rightarrow> content (req_messages req2 ! (2 + i)) = []
             | ListValue [] \<Rightarrow> content (req_messages req2 ! (2 + i)) = []
             | ListValue (b # bs) \<Rightarrow> block_text b = Some (content (req_messages req2 ! (2 + i)))
             | ObjectValue true_value s \<Rightarrow>
                 content (req_messages req2 ! (2 + i)) = (if true_value then s else []))"
      by (auto simp: tool_content_def split: content_value.splits list.splits option.splits)
  qed
  ultimately show ?thesis by simp
qed (use assms(2) in simp_all)

text \<open>
  C2 on the query \<open>notes\<close>: one result with a text, one empty result.
\<close>

theorem tool_message_content_witness:
  "tool_results example_notes_trace =
     [ListValue [ContentBlock (Some (lit ''No notes yet.'')) (lit ''TextContent'')], ListValue []] \<and>
   map content (drop 2 (req_messages (final_request example_client example_notes_messages []))) =
     [lit ''No notes yet.'', []]"
  using tool_message_content [OF example_notes_run example_notes_model_calls]
  by (simp add: example_notes_trace_def example_notes_messages_def final_request_def
        text_result_def)

text \<open>
  Claim C3. Every run of \<open>process_query\<close> calls the model at most twice, and a call after
  the first one has the tool invocation mode \<open>none\<close>, whatever the number of tool calls.
  When the first response carries tool call requests and the loop over them ends
  normally, the second call is issued, with the mode \<open>none\<close>.
\<close>

theorem at_most_two_model_calls:
  assumes "process_query env c query w = (r, t, w')"
  shows "length (model_calls t) \<le> 2 \<and>
         (\<forall>req resp. (req, resp) \<in> set (tl (model_calls t)) \<longrightarrow> req_tool_choice req = lit ''none'') \<and>
         (\<forall>tools w1 m choices w2 tcs ms tt w3.
            session c \<and> session_list_tools env w = (Inr tools, w1) \<and>
            chat_completions_create env (first_request c query (map openai_format tools)) w1 =
              (Inr (m # choices), w2) \<and>
            msg_tool_calls m = Some tcs \<and> tcs \<noteq> [] \<and>
            resolve_tool_calls env tcs [UserMessage query, assistant_msg m] w2 = (Inr ms, tt, w3) \<longrightarrow>
            length (model_calls t) = 2 \<and>
            fst (model_calls t ! 1) = final_request c ms (map openai_format tools) \<and>
            req_tool_choice (fst (model_calls t ! 1)) = lit ''none'')"
proof (intro conjI allI impI)
  from assms show "length (model_calls t) \<le> 2"
    by (cases rule: process_query_cases) simp_all
next
  fix req resp
  assume "(req, resp) \<in> set (tl (model_calls t))"
  with assms show "req_tool_choice req = lit ''none''"
    by (cases rule: process_query_cases) (simp_all add: final_request_def)
next
  fix tools w1 m choices w2 tcs ms tt w3
  assume f: "session c \<and> session_list_tools env w = (Inr tools, w1) \<and>
            chat_completions_create env (first_request c query (map openai_format tools)) w1 =
              (Inr (m # choices), w2) \<and>
            msg_tool_calls m = Some tcs \<and> tcs \<noteq> [] \<and>
            resolve_tool_calls env tcs [UserMessage query, assistant_msg m] w2 = (Inr ms, tt, w3)"
  then have h: "session c" "session_list_tools env w = (Inr tools, w1)"
    "chat_completions_create env (first_request c query (map openai_format tools)) w1 =
       (Inr (m # choices), w2)"
    "msg_tool_calls m = Some tcs" "tcs \<noteq> []"
    "resolve_tool_calls env tcs [UserMessage query, assistant_msg m] w2 = (Inr ms, tt, w3)"
    by simp_all
  from second_call_issued(1) [OF assms h] obtain resp2 where
    mc: "model_calls t =
           [(first_request c query (map openai_format tools), Inr (m # choices)),
            (final_request c ms (map openai_format tools), resp2)]"
    by blast
  from mc show "length (model_calls t) = 2" by simp
  from mc show "fst (model_calls t ! 1) = final_request c ms (map openai_format tools)" by simp
  from mc show "req_tool_choice (fst (model_calls t ! 1)) = lit ''none''"
    by (simp add: final_request_def)
qed

text \<open>
  C3 on the query \<open>notes\<close>: the run calls the model twice, the second time with the mode
  \<open>none\<close>.
\<close>

theorem at_most_two_model_calls_witness:
  "session example_client \<and>
   session_list_tools example_env (None, []) = (Inr [], (None, [])) \<and>
   msg_tool_calls (asking_for example_notes_calls) = Some example_notes_calls \<and>
   example_notes_calls \<noteq> [] \<and>
   length (model_calls (fst (snd (process_query example_env example_client (lit ''notes'') (None, []))))) = 2 \<and>
   req_tool_choice (fst (model_calls (fst (snd
       (process_query example_env example_client (lit ''notes'') (None, [])))) ! 1)) = lit ''none''"
proof -
  have t: "msg_tool_calls (asking_for example_notes_calls) = Some example_notes_calls"
    and n: "example_notes_calls \<noteq> []"
    by (simp_all add: asking_for_def example_notes_calls_def)
  from at_most_two_model_calls [OF example_notes_run]
  have "length (model_calls example_notes_trace) = 2 \<and>
        fst (model_calls example_notes_trace ! 1) =
          final_request example_client example_notes_messages (map openai_format []) \<and>
        req_tool_choice (fst (model_calls example_notes_trace ! 1)) = lit ''none''"
    using example_session example_list_tools [of "(None, [])"] example_notes_first_call t n
      example_notes_resolve
    by blast
  then show ?thesis
    using example_session example_list_tools [of "(None, [])"] t n
    by (simp add: example_notes_run final_request_def)
qed

text \<open>
  Claim C4. In every run whose first model response carries no tool call requests
  (\<open>None\<close> or an empty list), the answer is the text content of that response as it came,
  the model is not called again and no tool is invoked.
\<close>

theorem direct_answer_without_tool_calls:
  assumes "process_query env c query w = (r, t, w')"
    and "model_calls t = (req1, Inr (m # choices)) # later"
    and "msg_tool_calls m = None \<or> msg_tool_calls m = Some []"
  shows "r = Inr (msg_content m) \<and> later = [] \<and> tool_invocations t = []"
  using assms(1)
proof (cases rule: process_query_cases)
  case (direct tools m' ch)
  with assms(2) show ?thesis by simp
qed (use assms(2,3) in auto)

text \<open>
  C4 on the query \<open>hello\<close>.
\<close>

theorem direct_answer_without_tool_calls_witness:
  "process_query example_env example_client (lit ''hello'') (None, []) =
     (Inr (Some (lit ''Hi!'')),
      [ListTools (Inr []),
       ChatCompletion (first_request example_client (lit ''hello'') []) (Inr [saying (lit ''Hi!'')])],
      (None, [])) \<and>
   msg_tool_calls (saying (lit ''Hi!'')) = None \<and>
   msg_content (saying (lit ''Hi!'')) = Some (lit ''Hi!'')"
  using direct_answer_without_tool_calls [OF example_hello_run, of
      "first_request example_client (lit ''hello'') []" "saying (lit ''Hi!'')" "[]" "[]"]
    example_hello_run
  by (simp add: saying_def)

text \<open>
  Claim C6, as stated, fails for the tool dispatch failure it names. A request for a tool
  that is not registered raises nothing: the tool host answers with an error result
  (\<open>isError\<close> set, the text \<open>Unknown tool: nope\<close>), the client does not read the flag and
  passes the text to the model, and the turn prints the model's answer. Nothing is caught
  and nothing is reported as an error.
\<close>

theorem unregistered_tool_counterexample:
  "session_call_tool example_env (lit ''nope'') (lit ''{}'') (None, []) =
     (Inr (text_result (lit ''Unknown tool: nope'') True), (None, [])) \<and>
   tr_isError (text_result (lit ''Unknown tool: nope'') True) \<and>
   process_query example_env example_client (lit ''unknown'') (None, []) =
     (Inr (Some (lit ''Done.'')), example_unknown_trace, (None, [])) \<and>
   loop_body example_env example_client (None, [lit ''unknown'']) =
     (Inr Continue,
      [Input (Inr (lit ''unknown'')), Print (Processing (lit ''unknown''))] @
      example_unknown_trace @
      [Print (AssistantReply (Some (lit ''Done.'')))],
      (None, []))"
proof -
  have st: "strip (lit ''unknown'') = lit ''unknown''"
    by (simp add: strip_def isspace_def lit_def)
  have x: "lower (lit ''unknown'') \<notin> set [lit ''exit'', lit ''quit'', lit ''bye'']"
    by (simp add: lower_def lit_def)
  have n: "lit ''unknown'' \<noteq> []" by (simp add: lit_def)
  have p: "print_line (Processing (lit ''unknown'')) w = (Inr (), [Print (Processing (lit ''unknown''))], w)"
    for w :: example_world
    by (simp add: print_line_def encode_check_def encodable_def lit_def)
  have a: "print_line (AssistantReply (Some (lit ''Done.''))) w =
             (Inr (), [Print (AssistantReply (Some (lit ''Done.'')))], w)"
    for w :: example_world
    by (simp add: print_line_def encode_check_def encodable_def lit_def)
  have i: "read_input example_env (None, [lit ''unknown'']) = (Inr (lit ''unknown''), (None, []))"
    by (simp add: example_env_def example_input_def)
  have body: "loop_body example_env example_client (None, [lit ''unknown'']) =
     (Inr Continue,
      [Input (Inr (lit ''unknown'')), Print (Processing (lit ''unknown''))] @
      example_unknown_trace @
      [Print (AssistantReply (Some (lit ''Done.'')))],
      (None, []))"
    using x n
    by (simp add: loop_body_def io_try_def io_bind_def external_def io_return_def i st p a
          example_unknown_run Let_def)
  have h: "session_call_tool example_env (lit ''nope'') (lit ''{}'') (None, []) =
     (Inr (text_result (lit ''Unknown tool: nope'') True), (None, []))"
    by (simp add: example_env_def example_call_tool_def lit_def)
  from body h show ?thesis
    by (simp add: example_unknown_run text_result_def)
qed

text \<open>
  Claim C6, amended. When a turn of the interactive loop reads a query and
  \<open>process_query\<close> raises an exception \<open>e\<close> that is an \<open>Exception\<close>, the turn reports \<open>e\<close> and
  ends normally, the loop goes on with the next turn, and the turn called the model no
  more often than that one run of \<open>process_query\<close> did, at most twice: nothing is retried.
  That is so for a failure of the model API on the first call, and for a tool invocation
  that raises. (The query and the message of \<open>e\<close> must be printable.) A request for an
  unregistered tool is not among these errors.
\<close>

theorem query_error_reported_loop_continues:
  assumes "read_input env w = (Inr line, w1)"
    and "lower (strip line) \<notin> set [lit ''exit'', lit ''quit'', lit ''bye'']"
    and "strip line \<noteq> []"
    and "list_all encodable (strip line)"
  shows "(\<forall>e t w2.
            process_query env c (strip line) w1 = (Inl e, t, w2) \<and>
            isinstance_Exception e \<and> list_all encodable (exception_str e) \<longrightarrow>
            loop_body env c w =
              (Inr Continue,
               [Input (Inr line), Print (Processing (strip line))] @ t @
               [Print (ErrorProcessingQuery e)],
               w2) \<and>
            chat_loop (Suc n) env c w =
              (case chat_loop n env c w2 of
                 None \<Rightarrow> None
               | Some (r, t2, w3) \<Rightarrow>
                   Some (r, ([Input (Inr line), Print (Processing (strip line))] @ t @
                             [Print (ErrorProcessingQuery e)]) @ t2, w3)) \<and>
            model_calls ([Input (Inr line), Print (Processing (strip line))] @ t @
                         [Print (ErrorProcessingQuery e)]) = model_calls t \<and>
            length (model_calls t) \<le> 2) \<and>
         (\<forall>tools wa e wb.
            session c \<and> session_list_tools env w1 = (Inr tools, wa) \<and>
            chat_completions_create env (first_request c (strip line) (map openai_format tools)) wa =
              (Inl e, wb) \<and>
            isinstance_Exception e \<and> list_all encodable (exception_str e) \<and>
            list_all encodable (deployment_name c) \<longrightarrow>
            loop_body env c w =
              (Inr Continue,
               [Input (Inr line), Print (Processing (strip line)),
                ListTools (Inr tools),
                ChatCompletion (first_request c (strip line) (map openai_format tools)) (Inl e),
                Print (ErrorCallingAzureOpenAI e), Print (DeploymentNameUsed (deployment_name c)),
                Print ConfigurationHints,
                Print (ErrorProcessingQuery e)],
               wb)) \<and>
         (\<forall>tools wa m choices wb tc rest a e wc.
            session c \<and> session_list_tools env w1 = (Inr tools, wa) \<and>
            chat_completions_create env (first_request c (strip line) (map openai_format tools)) wa =
              (Inr (m # choices), wb) \<and>
            msg_tool_calls m = Some (tc # rest) \<and>
            json_loads env (fn_arguments (tc_function tc)) = Inr a \<and>
            session_call_tool env (fn_name (tc_function tc)) a wb = (Inl e, wc) \<and>
            isinstance_Exception e \<and> list_all encodable (exception_str e) \<longrightarrow>
            loop_body env c w =
              (Inr Continue,
               [Input (Inr line), Print (Processing (strip line)),
                ListTools (Inr tools),
                ChatCompletion (first_request c (strip line) (map openai_format tools))
                  (Inr (m # choices)),
                CallTool (fn_name (tc_function tc)) a (Inl e),
                Print (ErrorProcessingQuery e)],
               wc))"
proof -
  have body: "loop_body env c w =
           (Inr Continue,
            [Input (Inr line), Print (Processing (strip line))] @ t @ [Print (ErrorProcessingQuery e)],
            w2)"
    if "process_query env c (strip line) w1 = (Inl e, t, w2)"
      and "isinstance_Exception e" and "list_all encodable (exception_str e)"
    for e t w2
  proof -
    from that(2) have nk: "e \<noteq> KeyboardInterrupt" by (auto simp: isinstance_Exception_def)
    show ?thesis
      using assms that nk
      by (simp add: loop_body_def io_try_def io_bind_def external_def print_line_encodable
            io_return_def loop_handlers_def Let_def)
  qed
  have A: "\<forall>e t w2.
            process_query env c (strip line) w1 = (Inl e, t, w2) \<and>
            isinstance_Exception e \<and> list_all encodable (exception_str e) \<longrightarrow>
            loop_body env c w =
              (Inr Continue,
               [Input (Inr line), Print (Processing (strip line))] @ t @
               [Print (ErrorProcessingQuery e)],
               w2) \<and>
            chat_loop (Suc n) env c w =
              (case chat_loop n env c w2 of
                 None \<Rightarrow> None
               | Some (r, t2, w3) \<Rightarrow>
                   Some (r, ([Input (Inr line), Print (Processing (strip line))] @ t @
                             [Print (ErrorProcessingQuery e)]) @ t2, w3)) \<and>
            model_calls ([Input (Inr line), Print (Processing (strip line))] @ t @
                         [Print (ErrorProcessingQuery e)]) = model_calls t \<and>
            length (model_calls t) \<le> 2"
  proof (intro allI impI, elim conjE)
    fix e t w2
    assume p: "process_query env c (strip line) w1 = (Inl e, t, w2)"
      and ie: "isinstance_Exception e" and en: "list_all encodable (exception_str e)"
    from p have le: "length (model_calls t) \<le> 2"
      by (cases rule: process_query_cases) simp_all
    from body [OF p ie en] le
    show "loop_body env c w =
              (Inr Continue,
               [Input (Inr line), Print (Processing (strip line))] @ t @
               [Print (ErrorProcessingQuery e)],
               w2) \<and>
            chat_loop (Suc n) env c w =
              (case chat_loop n env c w2 of
                 None \<Rightarrow> None
               | Some (r, t2, w3) \<Rightarrow>
                   Some (r, ([Input (Inr line), Print (Processing (strip line))] @ t @
                             [Print (ErrorProcessingQuery e)]) @ t2, w3)) \<and>
            model_calls ([Input (Inr line), Print (Processing (strip line))] @ t @
                         [Print (ErrorProcessingQuery e)]) = model_calls t \<and>
            length (model_calls t) \<le> 2"
      by (simp add: model_calls_append split: option.splits)
  qed
  have B: "\<forall>tools wa e wb.
            session c \<and> session_list_tools env w1 = (Inr tools, wa) \<and>
            chat_completions_create env (first_request c (strip line) (map openai_format tools)) wa =
              (Inl e, wb) \<and>
            isinstance_Exception e \<and> list_all encodable (exception_str e) \<and>
            list_all encodable (deployment_name c) \<longrightarrow>
            loop_body env c w =
              (Inr Continue,
               [Input (Inr line), Print (Processing (strip line)),
                ListTools (Inr tools),
                ChatCompletion (first_request c (strip line) (map openai_format tools)) (Inl e),
                Print (ErrorCallingAzureOpenAI e), Print (DeploymentNameUsed (deployment_name c)),
                Print ConfigurationHints,
                Print (ErrorProcessingQuery e)],
               wb)"
  proof (intro allI impI, elim conjE)
    fix tools wa e wb
    assume h: "session c" "session_list_tools env w1 = (Inr tools, wa)"
      "chat_completions_create env (first_request c (strip line) (map openai_format tools)) wa =
         (Inl e, wb)"
      "isinstance_Exception e" "list_all encodable (exception_str e)"
      "list_all encodable (deployment_name c)"
    from body [OF pq_first_failed_reported [OF h] h(4,5)]
    show "loop_body env c w =
              (Inr Continue,
               [Input (Inr line), Print (Processing (strip line)),
                ListTools (Inr tools),
                ChatCompletion (first_request c (strip line) (map openai_format tools)) (Inl e),
                Print (ErrorCallingAzureOpenAI e), Print (DeploymentNameUsed (deployment_name c)),
                Print ConfigurationHints,
                Print (ErrorProcessingQuery e)],
               wb)"
      by simp
  qed
  have C: "\<forall>tools wa m choices wb tc rest a e wc.
            session c \<and> session_list_tools env w1 = (Inr tools, wa) \<and>
            chat_completions_create env (first_request c (strip line) (map openai_format tools)) wa =
              (Inr (m # choices), wb) \<and>
            msg_tool_calls m = Some (tc # rest) \<and>
            json_loads env (fn_arguments (tc_function tc)) = Inr a \<and>
            session_call_tool env (fn_name (tc_function tc)) a wb = (Inl e, wc) \<and>
            isinstance_Exception e \<and> list_all encodable (exception_str e) \<longrightarrow>
            loop_body env c w =
              (Inr Continue,
               [Input (Inr line), Print (Processing (strip line)),
                ListTools (Inr tools),
                ChatCompletion (first_request c (strip line) (map openai_format tools))
                  (Inr (m # choices)),
                CallTool (fn_name (tc_function tc)) a (Inl e),
                Print (ErrorProcessingQuery e)],
               wc)"
  proof (intro allI impI, elim conjE)
    fix tools wa m choices wb tc rest a e wc
    assume h: "session c" "session_list_tools env w1 = (Inr tools, wa)"
      "chat_completions_create env (first_request c (strip line) (map openai_format tools)) wa =
         (Inr (m # choices), wb)"
      "msg_tool_calls m = Some (tc # rest)"
      and j: "json_loads env (fn_arguments (tc_function tc)) = Inr a"
      and ct: "session_call_tool env (fn_name (tc_function tc)) a wb = (Inl e, wc)"
      and ie: "isinstance_Exception e" and en: "list_all encodable (exception_str e)"
    have ne: "tc # rest \<noteq> []" by simp
    have res: "resolve_tool_calls env (tc # rest) [UserMessage (strip line), assistant_msg m] wb =
                 (Inl e, [CallTool (fn_name (tc_function tc)) a (Inl e)], wc)"
      using j ct by (simp add: io_bind_def io_lift_def external_def)
    from body [OF pq_aborted [OF h ne res] ie en]
    show "loop_body env c w =
              (Inr Continue,
               [Input (Inr line), Print (Processing (strip line)),
                ListTools (Inr tools),
                ChatCompletion (first_request c (strip line) (map openai_format tools))
                  (Inr (m # choices)),
                CallTool (fn_name (tc_function tc)) a (Inl e),
                Print (ErrorProcessingQuery e)],
               wc)"
      by simp
  qed
  from A B C show ?thesis by blast
qed

text \<open>
  C6 on a query that the model API fails to answer, followed by \<open>Exit\<close>: the failure is
  reported, the loop goes on and ends at \<open>Exit\<close>.
\<close>

theorem query_error_reported_loop_continues_witness:
  "read_input example_env (None, [lit '' down '', lit ''Exit'']) =
     (Inr (lit '' down ''), (None, [lit ''Exit''])) \<and>
   strip (lit '' down '') = lit ''down'' \<and>
   isinstance_Exception example_api_error \<and>
   loop_body example_env example_client (None, [lit '' down '', lit ''Exit'']) =
     (Inr Continue,
      [Input (Inr (lit '' down '')), Print (Processing (lit ''down''))] @
      example_down_trace @
      [Print (ErrorProcessingQuery example_api_error)],
      (None, [lit ''Exit''])) \<and>
   chat_loop 2 example_env example_client (None, [lit '' down '', lit ''Exit'']) =
     Some (Inr (),
           [Input (Inr (lit '' down '')), Print (Processing (lit ''down''))] @
           example_down_trace @
           [Print (ErrorProcessingQuery example_api_error),
            Input (Inr (lit ''Exit'')), Print Goodbye],
           (None, []))"
proof -
  have st: "strip (lit '' down '') = lit ''down''"
    by (simp add: strip_def isspace_def lit_def)
  have i: "read_input example_env (None, [lit '' down '', lit ''Exit'']) =
             (Inr (lit '' down ''), (None, [lit ''Exit'']))"
    by (simp add: example_env_def example_input_def)
  have x: "lower (strip (lit '' down '')) \<notin> set [lit ''exit'', lit ''quit'', lit ''bye'']"
    by (simp add: st) (simp add: lower_def lit_def)
  have n: "strip (lit '' down '') \<noteq> []"
    by (simp add: st) (simp add: lit_def)
  have q: "list_all encodable (strip (lit '' down ''))"
    by (simp add: st) (simp add: lit_def encodable_def)
  have p: "process_query example_env example_client (strip (lit '' down '')) (None, [lit ''Exit'']) =
             (Inl example_api_error, example_down_trace, (None, [lit ''Exit'']))"
    by (simp only: st example_down_run)
  have e: "isinstance_Exception example_api_error"
    by (simp add: isinstance_Exception_def example_api_error_def)
  have m: "list_all encodable (exception_str example_api_error)"
    by (simp add: example_api_error_def lit_def encodable_def)
  have nxt: "chat_loop (Suc 0) example_env example_client (None, [lit ''Exit'']) =
               Some (Inr (), [Input (Inr (lit ''Exit'')), Print Goodbye], (None, []))"
    by (simp add: loop_body_def io_try_def io_bind_def external_def
          print_line_def encode_check_def io_return_def example_env_def example_input_def
          strip_def isspace_def lower_def lit_def)
  from query_error_reported_loop_continues [OF i x n q, of example_client "Suc 0"] p e m
  have "loop_body example_env example_client (None, [lit '' down '', lit ''Exit'']) =
          (Inr Continue,
           [Input (Inr (lit '' down '')), Print (Processing (strip (lit '' down '')))] @
           example_down_trace @ [Print (ErrorProcessingQuery example_api_error)],
           (None, [lit ''Exit'']))"
    and "chat_loop (Suc (Suc 0)) example_env example_client (None, [lit '' down '', lit ''Exit'']) =
          (case chat_loop (Suc 0) example_env example_client (None, [lit ''Exit'']) of
             None \<Rightarrow> None
           | Some (r, t2, w3) \<Rightarrow>
               Some (r, ([Input (Inr (lit '' down '')), Print (Processing (strip (lit '' down '')))] @
                         example_down_trace @ [Print (ErrorProcessingQuery example_api_error)]) @ t2, w3))"
    by blast+
  with nxt st i e show ?thesis
    by (simp add: numeral_2_eq_2)
qed

text \<open>
  Claim C7, as stated, fails: on arguments that do not decode the query ends with the
  \<open>JSONDecodeError\<close> that \<open>json.loads\<close> raised, whose class is not \<open>MalformedArguments\<close>.
\<close>

theorem malformed_arguments_counterexample:
  "process_query example_env example_client (lit ''bad'') (None, []) =
     (Inl (JSONDecodeError
             (lit ''Expecting property name enclosed in double quotes: line 1 column 2 (char 1)'')),
      example_bad_trace, (Some [], [])) \<and>
   class_name (JSONDecodeError
      (lit ''Expecting property name enclosed in double quotes: line 1 column 2 (char 1)'')) =
     lit ''JSONDecodeError'' \<and>
   lit ''JSONDecodeError'' \<noteq> lit ''MalformedArguments''"
  using example_bad_run by (simp add: lit_def)

text \<open>
  Claim C7, amended. When the requests before request \<open>i\<close> have been resolved and
  \<open>json.loads\<close> raises \<open>e\<close> on the raw arguments of request \<open>i\<close> (a \<open>JSONDecodeError\<close> on text
  that is not JSON), \<open>process_query\<close> raises that same \<open>e\<close>, unchanged and not wrapped; the
  tool of request \<open>i\<close> and of the later requests is not invoked and the model is not called
  again.
\<close>

theorem malformed_arguments_abort_query:
  assumes "session c"
    and "session_list_tools env w = (Inr tools, w1)"
    and "chat_completions_create env (first_request c query (map openai_format tools)) w1 =
           (Inr (m # choices), w2)"
    and "msg_tool_calls m = Some tcs"
    and "i < length tcs"
    and "json_loads env (fn_arguments (tc_function (tcs ! i))) = Inl e"
    and "resolve_tool_calls env (take i tcs) [UserMessage query, assistant_msg m] w2 = (Inr ms, tt, w3)"
  shows "process_query env c query w =
           (Inl e,
            [ListTools (Inr tools),
             ChatCompletion (first_request c query (map openai_format tools)) (Inr (m # choices))] @ tt,
            w3) \<and>
         length (tool_invocations tt) = i \<and> model_calls tt = []"
proof -
  from assms(5) have ne: "tcs \<noteq> []" by auto
  have ab: "resolve_tool_calls env tcs [UserMessage query, assistant_msg m] w2 = (Inl e, tt, w3)"
    by (rule resolve_tool_calls_decode_failure [OF assms(5,6,7)])
  from resolve_tool_calls_ok [OF assms(7)] assms(5)
  have "length (tool_invocations tt) = i" by auto
  moreover have "model_calls tt = []"
    by (rule resolve_tool_calls_model_calls [OF assms(7)])
  ultimately show ?thesis
    using pq_aborted [OF assms(1,2,3,4) ne ab] by simp
qed

text \<open>
  C7 on the query \<open>bad\<close>, whose second request has arguments that do not decode.
\<close>

theorem malformed_arguments_abort_query_witness:
  "json_loads example_env (fn_arguments (tc_function (example_bad_calls ! 1))) =
     Inl (JSONDecodeError
            (lit ''Expecting property name enclosed in double quotes: line 1 column 2 (char 1)'')) \<and>
   process_query example_env example_client (lit ''bad'') (None, []) =
     (Inl (JSONDecodeError
             (lit ''Expecting property name enclosed in double quotes: line 1 column 2 (char 1)'')),
      example_bad_trace, (Some [], [])) \<and>
   tool_invocations example_bad_trace = [(lit ''read_notes'', lit ''{}'')] \<and>
   length (model_calls example_bad_trace) = 1"
proof -
  have c: "chat_completions_create example_env
             (first_request example_client (lit ''bad'') (map openai_format [])) (None, []) =
           (Inr (asking_for example_bad_calls # []), (None, []))"
    by (simp add: example_env_def example_chat_def first_request_def lit_def)
  have m: "msg_tool_calls (asking_for example_bad_calls) = Some example_bad_calls"
    by (simp add: asking_for_def)
  have i: "1 < length example_bad_calls" by (simp add: example_bad_calls_def)
  have j: "json_loads example_env (fn_arguments (tc_function (example_bad_calls ! 1))) =
     Inl (JSONDecodeError
            (lit ''Expecting property name enclosed in double quotes: line 1 column 2 (char 1)''))"
    by (simp add: example_env_def example_json_loads_def example_bad_calls_def
          example_tool_call_def lit_def)
  have r: "resolve_tool_calls example_env (take 1 example_bad_calls)
             [UserMessage (lit ''bad''), assistant_msg (asking_for example_bad_calls)] (None, []) =
           (Inr [UserMessage (lit ''bad''), assistant_msg (asking_for example_bad_calls),
                 ToolMessage (lit ''call_1'') (lit ''No notes yet.'')],
            [CallTool (lit ''read_notes'') (lit ''{}'') (Inr (text_result (lit ''No notes yet.'') False))],
            (Some [], []))"
    by (simp add: query_defs example_defs notes_defs)
  from malformed_arguments_abort_query [OF example_session example_list_tools c m i j r] j
  show ?thesis
    by (simp add: example_bad_trace_def)
qed

text \<open>
  Claim C8. If the API key, the endpoint or the deployment name is missing (unset or
  empty; the deployment name neither passed nor in the environment), \<open>__init__\<close> raises
  a \<open>ValueError\<close> that names the three settings; and \<open>interactive_azure_openai\<close> then ends
  with that exception before it has called anything in the outer world.
\<close>

theorem missing_configuration_fails_fast:
  "(\<not> truthy (getenv (lit ''AZURE_OPENAI_API_KEY'')) \<or>
    \<not> truthy (getenv (lit ''AZURE_OPENAI_ENDPOINT'')) \<or>
    (\<not> truthy arg \<and> \<not> truthy (getenv (lit ''AZURE_OPENAI_DEPLOYMENT_NAME''))) \<longrightarrow>
    MCPAzureOpenAIClient_init getenv arg = Inl (ValueError missing_configuration_message)) \<and>
   (\<not> truthy (environ env (lit ''AZURE_OPENAI_API_KEY'')) \<or>
    \<not> truthy (environ env (lit ''AZURE_OPENAI_ENDPOINT'')) \<or>
    \<not> truthy (environ env (lit ''AZURE_OPENAI_DEPLOYMENT_NAME'')) \<longrightarrow>
    interactive_azure_openai fuel env w = Some (Inl (ValueError missing_configuration_message), [], w))"
proof -
  have a: "MCPAzureOpenAIClient_init g a = Inl (ValueError missing_configuration_message)"
    if "\<not> truthy (g (lit ''AZURE_OPENAI_API_KEY'')) \<or>
        \<not> truthy (g (lit ''AZURE_OPENAI_ENDPOINT'')) \<or>
        (\<not> truthy a \<and> \<not> truthy (g (lit ''AZURE_OPENAI_DEPLOYMENT_NAME'')))"
    for g a
    using that
    by (auto simp: MCPAzureOpenAIClient_init_def truthy_def Let_def split: option.splits)
  have n: "\<not> truthy (None :: str option)" by (simp add: truthy_def)
  show ?thesis
    using a [of getenv arg] a [of "environ env" None] n
    by (auto simp: interactive_azure_openai_def)
qed

text \<open>
  C8 in an environment without any variable.
\<close>

theorem missing_configuration_fails_fast_witness:
  "\<not> truthy (environ (example_env\<lparr>environ := (\<lambda>var. None)\<rparr>) (lit ''AZURE_OPENAI_API_KEY'')) \<and>
   MCPAzureOpenAIClient_init (\<lambda>var. None) (Some (lit ''gpt'')) =
     Inl (ValueError missing_configuration_message) \<and>
   interactive_azure_openai 5 (example_env\<lparr>environ := (\<lambda>var. None)\<rparr>) (None, [lit ''hello'']) =
     Some (Inl (ValueError missing_configuration_message), [], (None, [lit ''hello'']))"
  using missing_configuration_fails_fast [of "\<lambda>var. None" "Some (lit ''gpt'')"
      "example_env\<lparr>environ := (\<lambda>var. None)\<rparr>" 5 "(None, [lit ''hello''])"]
  by (simp add: truthy_def)

end
